theory Spec2Isabelle
  imports Complex_Main "HOL-Library.Sublist" "HOL-Library.Word" "HOL-Library.Monad_Syntax"
begin

section \<open>Bytes and the byte cursor\<close>

text \<open>
  A Python \<open>bytes\<close> value is a list of octets. Python's substring test \<open>a in b\<close> on
  strings (and on bytes) is \<^const>\<open>sublist\<close>: \<open>a\<close> occurs contiguously in \<open>b\<close>.
\<close>

type_synonym byte = "8 word"
type_synonym bytes = "byte list"

text \<open>\<open>int.from_bytes(bs, "little", signed=False)\<close>; the empty string gives 0.\<close>

fun from_bytes_unsigned :: "bytes \<Rightarrow> nat" where
  "from_bytes_unsigned [] = 0"
| "from_bytes_unsigned (b # bs) = unat b + 256 * from_bytes_unsigned bs"

text \<open>\<open>int.from_bytes(bs, "little", signed=True)\<close>: two's complement on the bytes given.\<close>

definition from_bytes_signed :: "bytes \<Rightarrow> int" where
  "from_bytes_signed bs =
     (let u = int (from_bytes_unsigned bs); w = 8 * length bs
      in if bs \<noteq> [] \<and> 2 ^ (w - 1) \<le> u then u - 2 ^ w else u)"

text \<open>
  \<open>class BinaryReader(BytesIO)\<close>: the buffer and the read position. \<open>BytesIO.read(n)\<close>
  returns the next \<open>n\<close> bytes, or as many as are left, and advances by what it returned.
\<close>

record BinaryReader =
  buf :: bytes
  pos :: nat

definition BinaryReader :: "bytes \<Rightarrow> BinaryReader" where
  "BinaryReader InitialBytes = \<lparr>buf = InitialBytes, pos = 0\<rparr>"

definition tell :: "BinaryReader \<Rightarrow> nat" where
  "tell r = pos r"

definition read :: "BinaryReader \<Rightarrow> nat \<Rightarrow> bytes \<times> BinaryReader" where
  "read r n =
     (let out = take n (drop (pos r) (buf r))
      in (out, r\<lparr>pos := pos r + length out\<rparr>))"

definition Skip :: "BinaryReader \<Rightarrow> nat \<Rightarrow> BinaryReader" where
  "Skip r Size = snd (read r Size)"

definition ReadUchar :: "BinaryReader \<Rightarrow> nat \<times> BinaryReader" where
  "ReadUchar r = (let (bs, r') = read r 1 in (from_bytes_unsigned bs, r'))"

definition ReadChar :: "BinaryReader \<Rightarrow> int \<times> BinaryReader" where
  "ReadChar r = (let (bs, r') = read r 1 in (from_bytes_signed bs, r'))"

definition ReadBool :: "BinaryReader \<Rightarrow> bool \<times> BinaryReader" where
  "ReadBool r = (let (v, r') = ReadUchar r in (1 \<le> v, r'))"

definition ReadUshort :: "BinaryReader \<Rightarrow> nat \<times> BinaryReader" where
  "ReadUshort r = (let (bs, r') = read r 2 in (from_bytes_unsigned bs, r'))"

definition ReadShort :: "BinaryReader \<Rightarrow> int \<times> BinaryReader" where
  "ReadShort r = (let (bs, r') = read r 2 in (from_bytes_signed bs, r'))"

definition ReadUint :: "BinaryReader \<Rightarrow> nat \<times> BinaryReader" where
  "ReadUint r = (let (bs, r') = read r 4 in (from_bytes_unsigned bs, r'))"

definition ReadInt :: "BinaryReader \<Rightarrow> int \<times> BinaryReader" where
  "ReadInt r = (let (bs, r') = read r 4 in (from_bytes_signed bs, r'))"

section \<open>The pixel format enumeration\<close>

text \<open>
  \<open>class ScPixel(IntEnum)\<close>. A member of a Python enumeration is an object with a
  \<open>name\<close> and a \<open>value\<close>; the class body lists the members.
\<close>

datatype ScPixel = ScPixel (ScPixel_name: string) (ScPixel_value: nat)

named_theorems ScPixel_defs \<open>the members of ScPixel\<close>

definition EAC_R11 :: ScPixel where [ScPixel_defs]: "EAC_R11 = ScPixel ''EAC_R11'' 170"
definition EAC_SIGNED_R11 :: ScPixel where [ScPixel_defs]: "EAC_SIGNED_R11 = ScPixel ''EAC_SIGNED_R11'' 172"
definition EAC_RG11 :: ScPixel where [ScPixel_defs]: "EAC_RG11 = ScPixel ''EAC_RG11'' 174"
definition EAC_SIGNED_RG11 :: ScPixel where [ScPixel_defs]: "EAC_SIGNED_RG11 = ScPixel ''EAC_SIGNED_RG11'' 176"
definition ETC2_EAC_RGBA8 :: ScPixel where [ScPixel_defs]: "ETC2_EAC_RGBA8 = ScPixel ''ETC2_EAC_RGBA8'' 178"
definition ETC2_EAC_SRGBA8 :: ScPixel where [ScPixel_defs]: "ETC2_EAC_SRGBA8 = ScPixel ''ETC2_EAC_SRGBA8'' 179"
definition ETC2_RGB8 :: ScPixel where [ScPixel_defs]: "ETC2_RGB8 = ScPixel ''ETC2_RGB8'' 180"
definition ETC2_SRGB8 :: ScPixel where [ScPixel_defs]: "ETC2_SRGB8 = ScPixel ''ETC2_SRGB8'' 181"
definition ETC2_RGB8_PUNCHTHROUGH_ALPHA1 :: ScPixel where [ScPixel_defs]: "ETC2_RGB8_PUNCHTHROUGH_ALPHA1 = ScPixel ''ETC2_RGB8_PUNCHTHROUGH_ALPHA1'' 182"
definition ETC2_SRGB8_PUNCHTHROUGH_ALPHA1 :: ScPixel where [ScPixel_defs]: "ETC2_SRGB8_PUNCHTHROUGH_ALPHA1 = ScPixel ''ETC2_SRGB8_PUNCHTHROUGH_ALPHA1'' 183"
definition ASTC_SRGBA8_4x4 :: ScPixel where [ScPixel_defs]: "ASTC_SRGBA8_4x4 = ScPixel ''ASTC_SRGBA8_4x4'' 186"
definition ASTC_SRGBA8_5x4 :: ScPixel where [ScPixel_defs]: "ASTC_SRGBA8_5x4 = ScPixel ''ASTC_SRGBA8_5x4'' 187"
definition ASTC_SRGBA8_5x5 :: ScPixel where [ScPixel_defs]: "ASTC_SRGBA8_5x5 = ScPixel ''ASTC_SRGBA8_5x5'' 188"
definition ASTC_SRGBA8_6x5 :: ScPixel where [ScPixel_defs]: "ASTC_SRGBA8_6x5 = ScPixel ''ASTC_SRGBA8_6x5'' 189"
definition ASTC_SRGBA8_6x6 :: ScPixel where [ScPixel_defs]: "ASTC_SRGBA8_6x6 = ScPixel ''ASTC_SRGBA8_6x6'' 190"
definition ASTC_SRGBA8_8x5 :: ScPixel where [ScPixel_defs]: "ASTC_SRGBA8_8x5 = ScPixel ''ASTC_SRGBA8_8x5'' 192"
definition ASTC_SRGBA8_8x6 :: ScPixel where [ScPixel_defs]: "ASTC_SRGBA8_8x6 = ScPixel ''ASTC_SRGBA8_8x6'' 193"
definition ASTC_SRGBA8_8x8 :: ScPixel where [ScPixel_defs]: "ASTC_SRGBA8_8x8 = ScPixel ''ASTC_SRGBA8_8x8'' 194"
definition ASTC_SRGBA8_10x5 :: ScPixel where [ScPixel_defs]: "ASTC_SRGBA8_10x5 = ScPixel ''ASTC_SRGBA8_10x5'' 195"
definition ASTC_SRGBA8_10x6 :: ScPixel where [ScPixel_defs]: "ASTC_SRGBA8_10x6 = ScPixel ''ASTC_SRGBA8_10x6'' 196"
definition ASTC_SRGBA8_10x8 :: ScPixel where [ScPixel_defs]: "ASTC_SRGBA8_10x8 = ScPixel ''ASTC_SRGBA8_10x8'' 197"
definition ASTC_SRGBA8_10x10 :: ScPixel where [ScPixel_defs]: "ASTC_SRGBA8_10x10 = ScPixel ''ASTC_SRGBA8_10x10'' 198"
definition ASTC_SRGBA8_12x10 :: ScPixel where [ScPixel_defs]: "ASTC_SRGBA8_12x10 = ScPixel ''ASTC_SRGBA8_12x10'' 199"
definition ASTC_SRGBA8_12x12 :: ScPixel where [ScPixel_defs]: "ASTC_SRGBA8_12x12 = ScPixel ''ASTC_SRGBA8_12x12'' 200"
definition ASTC_RGBA8_4x4 :: ScPixel where [ScPixel_defs]: "ASTC_RGBA8_4x4 = ScPixel ''ASTC_RGBA8_4x4'' 204"
definition ASTC_RGBA8_5x4 :: ScPixel where [ScPixel_defs]: "ASTC_RGBA8_5x4 = ScPixel ''ASTC_RGBA8_5x4'' 205"
definition ASTC_RGBA8_5x5 :: ScPixel where [ScPixel_defs]: "ASTC_RGBA8_5x5 = ScPixel ''ASTC_RGBA8_5x5'' 206"
definition ASTC_RGBA8_6x5 :: ScPixel where [ScPixel_defs]: "ASTC_RGBA8_6x5 = ScPixel ''ASTC_RGBA8_6x5'' 207"
definition ASTC_RGBA8_6x6 :: ScPixel where [ScPixel_defs]: "ASTC_RGBA8_6x6 = ScPixel ''ASTC_RGBA8_6x6'' 208"
definition ASTC_RGBA8_8x5 :: ScPixel where [ScPixel_defs]: "ASTC_RGBA8_8x5 = ScPixel ''ASTC_RGBA8_8x5'' 210"
definition ASTC_RGBA8_8x6 :: ScPixel where [ScPixel_defs]: "ASTC_RGBA8_8x6 = ScPixel ''ASTC_RGBA8_8x6'' 211"
definition ASTC_RGBA8_8x8 :: ScPixel where [ScPixel_defs]: "ASTC_RGBA8_8x8 = ScPixel ''ASTC_RGBA8_8x8'' 212"
definition ASTC_RGBA8_10x5 :: ScPixel where [ScPixel_defs]: "ASTC_RGBA8_10x5 = ScPixel ''ASTC_RGBA8_10x5'' 213"
definition ASTC_RGBA8_10x6 :: ScPixel where [ScPixel_defs]: "ASTC_RGBA8_10x6 = ScPixel ''ASTC_RGBA8_10x6'' 214"
definition ASTC_RGBA8_10x8 :: ScPixel where [ScPixel_defs]: "ASTC_RGBA8_10x8 = ScPixel ''ASTC_RGBA8_10x8'' 215"
definition ASTC_RGBA8_10x10 :: ScPixel where [ScPixel_defs]: "ASTC_RGBA8_10x10 = ScPixel ''ASTC_RGBA8_10x10'' 216"
definition ASTC_RGBA8_12x10 :: ScPixel where [ScPixel_defs]: "ASTC_RGBA8_12x10 = ScPixel ''ASTC_RGBA8_12x10'' 217"
definition ASTC_RGBA8_12x12 :: ScPixel where [ScPixel_defs]: "ASTC_RGBA8_12x12 = ScPixel ''ASTC_RGBA8_12x12'' 218"
definition ETC1_RGB8 :: ScPixel where [ScPixel_defs]: "ETC1_RGB8 = ScPixel ''ETC1_RGB8'' 263"
definition R8 :: ScPixel where [ScPixel_defs]: "R8 = ScPixel ''R8'' 280"
definition R8_SIGNED :: ScPixel where [ScPixel_defs]: "R8_SIGNED = ScPixel ''R8_SIGNED'' 281"
definition R16 :: ScPixel where [ScPixel_defs]: "R16 = ScPixel ''R16'' 282"
definition R16_SIGNED :: ScPixel where [ScPixel_defs]: "R16_SIGNED = ScPixel ''R16_SIGNED'' 283"
definition R16F :: ScPixel where [ScPixel_defs]: "R16F = ScPixel ''R16F'' 284"
definition R32F :: ScPixel where [ScPixel_defs]: "R32F = ScPixel ''R32F'' 285"
definition RG8 :: ScPixel where [ScPixel_defs]: "RG8 = ScPixel ''RG8'' 286"
definition RG8_SIGNED :: ScPixel where [ScPixel_defs]: "RG8_SIGNED = ScPixel ''RG8_SIGNED'' 287"
definition RG16 :: ScPixel where [ScPixel_defs]: "RG16 = ScPixel ''RG16'' 288"
definition RG16_SIGNED :: ScPixel where [ScPixel_defs]: "RG16_SIGNED = ScPixel ''RG16_SIGNED'' 289"
definition RG16F :: ScPixel where [ScPixel_defs]: "RG16F = ScPixel ''RG16F'' 290"
definition RG32F :: ScPixel where [ScPixel_defs]: "RG32F = ScPixel ''RG32F'' 291"
definition RGB8 :: ScPixel where [ScPixel_defs]: "RGB8 = ScPixel ''RGB8'' 292"
definition RGB8_SIGNED :: ScPixel where [ScPixel_defs]: "RGB8_SIGNED = ScPixel ''RGB8_SIGNED'' 293"
definition RGB16 :: ScPixel where [ScPixel_defs]: "RGB16 = ScPixel ''RGB16'' 294"
definition RGB16_SIGNED :: ScPixel where [ScPixel_defs]: "RGB16_SIGNED = ScPixel ''RGB16_SIGNED'' 295"
definition RGB16F :: ScPixel where [ScPixel_defs]: "RGB16F = ScPixel ''RGB16F'' 296"
definition RGB32F :: ScPixel where [ScPixel_defs]: "RGB32F = ScPixel ''RGB32F'' 297"
definition RGBA8 :: ScPixel where [ScPixel_defs]: "RGBA8 = ScPixel ''RGBA8'' 298"
definition RGBA8_SIGNED :: ScPixel where [ScPixel_defs]: "RGBA8_SIGNED = ScPixel ''RGBA8_SIGNED'' 299"
definition RGBA16 :: ScPixel where [ScPixel_defs]: "RGBA16 = ScPixel ''RGBA16'' 300"
definition RGBA16_SIGNED :: ScPixel where [ScPixel_defs]: "RGBA16_SIGNED = ScPixel ''RGBA16_SIGNED'' 301"
definition RGBA16F :: ScPixel where [ScPixel_defs]: "RGBA16F = ScPixel ''RGBA16F'' 302"
definition RGBA32F :: ScPixel where [ScPixel_defs]: "RGBA32F = ScPixel ''RGBA32F'' 303"
definition BGR8 :: ScPixel where [ScPixel_defs]: "BGR8 = ScPixel ''BGR8'' 304"
definition BGRA8 :: ScPixel where [ScPixel_defs]: "BGRA8 = ScPixel ''BGRA8'' 305"
definition BGRA8_SRGB :: ScPixel where [ScPixel_defs]: "BGRA8_SRGB = ScPixel ''BGRA8_SRGB'' 306"
definition PVRTC1_RGB2 :: ScPixel where [ScPixel_defs]: "PVRTC1_RGB2 = ScPixel ''PVRTC1_RGB2'' 307"
definition PVRTC1_SRGB2 :: ScPixel where [ScPixel_defs]: "PVRTC1_SRGB2 = ScPixel ''PVRTC1_SRGB2'' 308"
definition PVRTC1_RGB4 :: ScPixel where [ScPixel_defs]: "PVRTC1_RGB4 = ScPixel ''PVRTC1_RGB4'' 309"
definition PVRTC1_SRGB4 :: ScPixel where [ScPixel_defs]: "PVRTC1_SRGB4 = ScPixel ''PVRTC1_SRGB4'' 310"
definition PVRTC1_RGBA2 :: ScPixel where [ScPixel_defs]: "PVRTC1_RGBA2 = ScPixel ''PVRTC1_RGBA2'' 311"
definition PVRTC1_SRGBA2 :: ScPixel where [ScPixel_defs]: "PVRTC1_SRGBA2 = ScPixel ''PVRTC1_SRGBA2'' 312"
definition PVRTC1_RGBA4 :: ScPixel where [ScPixel_defs]: "PVRTC1_RGBA4 = ScPixel ''PVRTC1_RGBA4'' 313"
definition PVRTC1_SRGBA4 :: ScPixel where [ScPixel_defs]: "PVRTC1_SRGBA4 = ScPixel ''PVRTC1_SRGBA4'' 314"
definition PVRTC2_RGBA2 :: ScPixel where [ScPixel_defs]: "PVRTC2_RGBA2 = ScPixel ''PVRTC2_RGBA2'' 315"
definition PVRTC2_SRGBA2 :: ScPixel where [ScPixel_defs]: "PVRTC2_SRGBA2 = ScPixel ''PVRTC2_SRGBA2'' 316"
definition PVRTC2_RGBA4 :: ScPixel where [ScPixel_defs]: "PVRTC2_RGBA4 = ScPixel ''PVRTC2_RGBA4'' 317"
definition PVRTC2_SRGBA4 :: ScPixel where [ScPixel_defs]: "PVRTC2_SRGBA4 = ScPixel ''PVRTC2_SRGBA4'' 318"
definition RGBA8Unorm :: ScPixel where [ScPixel_defs]: "RGBA8Unorm = ScPixel ''RGBA8Unorm'' 319"
definition RGBA8Unorm_sRGB :: ScPixel where [ScPixel_defs]: "RGBA8Unorm_sRGB = ScPixel ''RGBA8Unorm_sRGB'' 320"
definition RGB8Unorm :: ScPixel where [ScPixel_defs]: "RGB8Unorm = ScPixel ''RGB8Unorm'' 321"
definition RGB8Unorm_sRGB :: ScPixel where [ScPixel_defs]: "RGB8Unorm_sRGB = ScPixel ''RGB8Unorm_sRGB'' 322"
definition RG8Unorm :: ScPixel where [ScPixel_defs]: "RG8Unorm = ScPixel ''RG8Unorm'' 323"
definition R8Unorm :: ScPixel where [ScPixel_defs]: "R8Unorm = ScPixel ''R8Unorm'' 324"
definition BGRA8Unorm :: ScPixel where [ScPixel_defs]: "BGRA8Unorm = ScPixel ''BGRA8Unorm'' 325"
definition BGR8Unorm :: ScPixel where [ScPixel_defs]: "BGR8Unorm = ScPixel ''BGR8Unorm'' 326"
definition RGBA8Unorm_70 :: ScPixel where [ScPixel_defs]: "RGBA8Unorm_70 = ScPixel ''RGBA8Unorm_70'' 70"

definition ScPixel_members :: "ScPixel list" where
  "ScPixel_members =
    [EAC_R11, EAC_SIGNED_R11, EAC_RG11, EAC_SIGNED_RG11,
     ETC2_EAC_RGBA8, ETC2_EAC_SRGBA8, ETC2_RGB8, ETC2_SRGB8,
     ETC2_RGB8_PUNCHTHROUGH_ALPHA1, ETC2_SRGB8_PUNCHTHROUGH_ALPHA1, ASTC_SRGBA8_4x4, ASTC_SRGBA8_5x4,
     ASTC_SRGBA8_5x5, ASTC_SRGBA8_6x5, ASTC_SRGBA8_6x6, ASTC_SRGBA8_8x5,
     ASTC_SRGBA8_8x6, ASTC_SRGBA8_8x8, ASTC_SRGBA8_10x5, ASTC_SRGBA8_10x6,
     ASTC_SRGBA8_10x8, ASTC_SRGBA8_10x10, ASTC_SRGBA8_12x10, ASTC_SRGBA8_12x12,
     ASTC_RGBA8_4x4, ASTC_RGBA8_5x4, ASTC_RGBA8_5x5, ASTC_RGBA8_6x5,
     ASTC_RGBA8_6x6, ASTC_RGBA8_8x5, ASTC_RGBA8_8x6, ASTC_RGBA8_8x8,
     ASTC_RGBA8_10x5, ASTC_RGBA8_10x6, ASTC_RGBA8_10x8, ASTC_RGBA8_10x10,
     ASTC_RGBA8_12x10, ASTC_RGBA8_12x12, ETC1_RGB8, R8,
     R8_SIGNED, R16, R16_SIGNED, R16F,
     R32F, RG8, RG8_SIGNED, RG16,
     RG16_SIGNED, RG16F, RG32F, RGB8,
     RGB8_SIGNED, RGB16, RGB16_SIGNED, RGB16F,
     RGB32F, RGBA8, RGBA8_SIGNED, RGBA16,
     RGBA16_SIGNED, RGBA16F, RGBA32F, BGR8,
     BGRA8, BGRA8_SRGB, PVRTC1_RGB2, PVRTC1_SRGB2,
     PVRTC1_RGB4, PVRTC1_SRGB4, PVRTC1_RGBA2, PVRTC1_SRGBA2,
     PVRTC1_RGBA4, PVRTC1_SRGBA4, PVRTC2_RGBA2, PVRTC2_SRGBA2,
     PVRTC2_RGBA4, PVRTC2_SRGBA4, RGBA8Unorm, RGBA8Unorm_sRGB,
     RGB8Unorm, RGB8Unorm_sRGB, RG8Unorm, R8Unorm,
     BGRA8Unorm, BGR8Unorm, RGBA8Unorm_70]"

text \<open>
  \<open>ScPixel(v)\<close>: the member whose value is \<open>v\<close>; Python raises \<open>ValueError\<close> when there
  is none, which is \<open>None\<close> here.
\<close>

definition ScPixel_call :: "nat \<Rightarrow> ScPixel option" where
  "ScPixel_call v = find (\<lambda>p. ScPixel_value p = v) ScPixel_members"

section \<open>Textures\<close>

text \<open>
  \<open>Texture.PixelType\<close> holds a member of the enumeration, or the raw integer read from
  the file when the enumeration has no member for it.
\<close>

datatype pixel = Member ScPixel | RawInt nat

record Texture =
  Width :: nat
  Height :: nat
  DataLength :: nat
  Data :: "bytes option"
  PixelType :: pixel
  IsCompressedDataFlag :: "bool option"
  DecompressedData :: "bytes option"

text \<open>\<open>Texture.__init__\<close>\<close>

definition Texture_init :: "pixel \<Rightarrow> nat \<Rightarrow> nat \<Rightarrow> Texture" where
  "Texture_init Pixel W H =
     \<lparr>Width = W, Height = H, DataLength = 0, Data = None, PixelType = Pixel,
      IsCompressedDataFlag = None, DecompressedData = None\<rparr>"

text \<open>\<open>list(range(186, 201)) + list(range(204, 219))\<close>\<close>

definition AstcFormatIds :: "nat list" where
  "AstcFormatIds = [186..<201] @ [204..<219]"

definition AstcIdToName :: "(nat \<times> string) list" where
  "AstcIdToName =
    [(186, ''ASTC_SRGBA8_4x4''), (187, ''ASTC_SRGBA8_5x4''), (188, ''ASTC_SRGBA8_5x5''),
     (189, ''ASTC_SRGBA8_6x5''), (190, ''ASTC_SRGBA8_6x6''), (192, ''ASTC_SRGBA8_8x5''),
     (193, ''ASTC_SRGBA8_8x6''), (194, ''ASTC_SRGBA8_8x8''), (195, ''ASTC_SRGBA8_10x5''),
     (196, ''ASTC_SRGBA8_10x6''), (197, ''ASTC_SRGBA8_10x8''), (198, ''ASTC_SRGBA8_10x10''),
     (199, ''ASTC_SRGBA8_12x10''), (200, ''ASTC_SRGBA8_12x12''), (204, ''ASTC_RGBA8_4x4''),
     (205, ''ASTC_RGBA8_5x4''), (206, ''ASTC_RGBA8_5x5''), (207, ''ASTC_RGBA8_6x5''),
     (208, ''ASTC_RGBA8_6x6''), (210, ''ASTC_RGBA8_8x5''), (211, ''ASTC_RGBA8_8x6''),
     (212, ''ASTC_RGBA8_8x8''), (213, ''ASTC_RGBA8_10x5''), (214, ''ASTC_RGBA8_10x6''),
     (215, ''ASTC_RGBA8_10x8''), (216, ''ASTC_RGBA8_10x10''), (217, ''ASTC_RGBA8_12x10''),
     (218, ''ASTC_RGBA8_12x12'')]"

text \<open>The decimal digits of a number, as the f-string \<open>f"{n}"\<close> prints them.\<close>

definition digit_char :: "nat \<Rightarrow> char" where
  "digit_char d = ''0123456789'' ! d"

function str_of_nat :: "nat \<Rightarrow> string" where
  "str_of_nat n =
     (if n < 10 then [digit_char n] else str_of_nat (n div 10) @ [digit_char (n mod 10)])"
  by pat_completeness auto
termination
  by (relation "measure (\<lambda>n. n)") auto

declare str_of_nat.simps [simp del]

definition GetFormatName :: "Texture \<Rightarrow> string" where
  "GetFormatName t =
     (case PixelType t of
        Member p \<Rightarrow> if p = RGBA8Unorm_70 then ''RGBA8Unorm'' else ScPixel_name p
      | RawInt n \<Rightarrow>
          if n \<in> set AstcFormatIds
          then (case map_of AstcIdToName n of
                  Some name \<Rightarrow> name
                | None \<Rightarrow> ''ASTC_UNKNOWN_'' @ str_of_nat n)
          else if n = 70 then ''RGBA8Unorm''
          else ''UNKNOWN ('' @ str_of_nat n @ '')'')"

definition IsAstc :: "Texture \<Rightarrow> bool" where
  "IsAstc t =
     (if sublist ''ASTC'' (GetFormatName t) then True
      else (case PixelType t of
              Member p \<Rightarrow> ScPixel_value p \<in> set AstcFormatIds
            | RawInt n \<Rightarrow> n \<in> set AstcFormatIds))"

definition IsEtc :: "Texture \<Rightarrow> bool" where
  "IsEtc t = (sublist ''ETC'' (GetFormatName t) \<or> sublist ''EAC'' (GetFormatName t))"

definition IsSrgb :: "Texture \<Rightarrow> bool" where
  "IsSrgb t =
     (sublist ''SRGB'' (GetFormatName t) \<or> sublist ''SRGBA'' (GetFormatName t)
      \<or> sublist ''sRGB'' (GetFormatName t))"

definition IsPvrtc :: "Texture \<Rightarrow> bool" where
  "IsPvrtc t = sublist ''PVRTC'' (GetFormatName t)"

definition UncompressedFormats :: "string list" where
  "UncompressedFormats =
    [''R8'', ''R16'', ''R16F'', ''R32F'', ''RG8'', ''RG16'', ''RG16F'', ''RG32F'',
     ''RGB8'', ''RGB16'', ''RGB16F'', ''RGB32F'', ''RGBA8'', ''RGBA16'', ''RGBA16F'',
     ''RGBA32F'', ''BGR8'', ''BGRA8'', ''RGBA8Unorm'', ''RGB8Unorm'', ''RG8Unorm'',
     ''R8Unorm'', ''BGRA8Unorm'', ''BGR8Unorm'']"

definition IsUncompressed :: "Texture \<Rightarrow> bool" where
  "IsUncompressed t =
     (if IsAstc t \<or> IsEtc t \<or> IsPvrtc t then False
      else list_ex (\<lambda>Fmt. sublist Fmt (GetFormatName t)) UncompressedFormats)"

section \<open>The expected-size calculator\<close>

definition AstcBlockSizes :: "(string \<times> nat \<times> nat) list" where
  "AstcBlockSizes =
    [(''4x4'', 4, 4), (''5x4'', 5, 4), (''5x5'', 5, 5), (''6x5'', 6, 5),
     (''6x6'', 6, 6), (''8x5'', 8, 5), (''8x6'', 8, 6), (''8x8'', 8, 8),
     (''10x5'', 10, 5), (''10x6'', 10, 6), (''10x8'', 10, 8), (''10x10'', 10, 10),
     (''12x10'', 12, 10), (''12x12'', 12, 12)]"

text \<open>
  \<open>Texture.CalculateExpectedSize\<close>. The loop over \<open>AstcBlockSizes.items()\<close> returns at the
  first pattern that occurs in the name; when none does, control leaves the \<open>if\<close> chain
  and reaches the final \<open>return 0\<close>.
\<close>

definition CalculateExpectedSize :: "Texture \<Rightarrow> nat" where
  "CalculateExpectedSize t =
     (if Width t = 0 \<or> Height t = 0 then 0
      else let FormatName = GetFormatName t in
        if IsAstc t then
          (case find (\<lambda>(BlockPattern, Bw, Bh). sublist BlockPattern FormatName) AstcBlockSizes of
             Some (BlockPattern, Bw, Bh) \<Rightarrow>
               let BlocksX = (Width t + Bw - 1) div Bw;
                   BlocksY = (Height t + Bh - 1) div Bh
               in BlocksX * BlocksY * 16
           | None \<Rightarrow> 0)
        else if IsEtc t then
          (let BlocksX = (Width t + 3) div 4;
               BlocksY = (Height t + 3) div 4
           in if sublist ''RGBA'' FormatName then BlocksX * BlocksY * 16
              else BlocksX * BlocksY * 8)
        else if IsUncompressed t then
          (if sublist ''RGBA'' FormatName \<or> sublist ''BGRA'' FormatName
             then Width t * Height t * 4
           else if sublist ''RGB'' FormatName \<or> sublist ''BGR'' FormatName
             then Width t * Height t * 3
           else if sublist ''RG'' FormatName then Width t * Height t * 2
           else if sublist ''R'' FormatName then Width t * Height t
           else 0)
        else 0)"

section \<open>External capabilities\<close>

text \<open>
  The libraries the program calls: \<open>zstandard\<close> and \<open>texture2ddecoder\<close>. Each is a
  parameter of the model; \<open>None\<close> stands for the library raising an exception.
  \<open>zstd_decompress data m\<close> is \<open>ZstdDecompressor().decompress(data, max_output_size=m)\<close>,
  where \<open>m = 0\<close> is the library's default: no ceiling supplied. \<open>zstd_error data m\<close> is
  the text \<open>str(E)\<close> of the exception \<open>E\<close> that this call raises; it is read only where
  the call has raised.
\<close>

record Capabilities =
  zstd_decompress :: "bytes \<Rightarrow> nat \<Rightarrow> bytes option"
  zstd_error :: "bytes \<Rightarrow> nat \<Rightarrow> string"
  decode_astc :: "bytes \<Rightarrow> nat \<Rightarrow> nat \<Rightarrow> nat \<Rightarrow> nat \<Rightarrow> bytes option"
  decode_etc1 :: "bytes \<Rightarrow> nat \<Rightarrow> nat \<Rightarrow> bytes option"
  decode_etc2 :: "bytes \<Rightarrow> nat \<Rightarrow> nat \<Rightarrow> bytes option"
  decode_etc2a1 :: "bytes \<Rightarrow> nat \<Rightarrow> nat \<Rightarrow> bytes option"
  decode_eacr :: "bytes \<Rightarrow> nat \<Rightarrow> nat \<Rightarrow> bool \<Rightarrow> bytes option"
  decode_eacrg :: "bytes \<Rightarrow> nat \<Rightarrow> nat \<Rightarrow> bool \<Rightarrow> bytes option"
  decode_pvrtc :: "bytes \<Rightarrow> nat \<Rightarrow> nat \<Rightarrow> bool \<Rightarrow> bytes option"

definition ZstdMagic :: bytes where
  "ZstdMagic = [0x28, 0xb5, 0x2f, 0xfd]"

text \<open>Python's truth value of a \<open>bytes\<close> attribute that may be \<open>None\<close>.\<close>

definition truthy :: "bytes option \<Rightarrow> bool" where
  "truthy d = (case d of None \<Rightarrow> False | Some bs \<Rightarrow> bs \<noteq> [])"

section \<open>Compressed texture data\<close>

text \<open>
  \<open>Texture.IsCompressedData\<close> and \<open>Texture.DecompressData\<close> memoise their result in the
  texture, so each returns the texture as it leaves it.
\<close>

definition IsCompressedData :: "Capabilities \<Rightarrow> Texture \<Rightarrow> bool \<times> Texture" where
  "IsCompressedData ext t =
     (case IsCompressedDataFlag t of
        Some flag \<Rightarrow> (flag, t)
      | None \<Rightarrow>
         (case Data t of
            None \<Rightarrow> (False, t\<lparr>IsCompressedDataFlag := Some False\<rparr>)
          | Some d \<Rightarrow>
              if d = [] \<or> length d < 4 then (False, t\<lparr>IsCompressedDataFlag := Some False\<rparr>)
              else if take 4 d = ZstdMagic then (True, t\<lparr>IsCompressedDataFlag := Some True\<rparr>)
              else (case zstd_decompress ext (take (min 100 (length d)) d) 1000 of
                      Some out \<Rightarrow> (True, t\<lparr>IsCompressedDataFlag := Some True\<rparr>)
                    | None \<Rightarrow> (False, t\<lparr>IsCompressedDataFlag := Some False\<rparr>))))"

definition DecompressData :: "Capabilities \<Rightarrow> Texture \<Rightarrow> bytes option \<times> Texture" where
  "DecompressData ext t =
     (case DecompressedData t of
        Some cached \<Rightarrow> (Some cached, t)
      | None \<Rightarrow>
         (let (compressed, t) = IsCompressedData ext t in
          if \<not> compressed then (Data t, t\<lparr>DecompressedData := Data t\<rparr>)
          else
            let MaxExpected = CalculateExpectedSize t * 3;
                MaxExpected = (if MaxExpected = 0 then 100 * 1024 * 1024 else MaxExpected)
            in (case Option.bind (Data t) (\<lambda>d. zstd_decompress ext d MaxExpected) of
                  Some out \<Rightarrow> (Some out, t\<lparr>DecompressedData := Some out\<rparr>)
                | None \<Rightarrow> (Data t, t\<lparr>DecompressedData := Data t\<rparr>))))"

section \<open>The container\<close>

datatype level = INFO | WARNING | ERROR

text \<open>
  \<open>class SCTX\<close>. \<open>CtxWidth\<close> and \<open>CtxHeight\<close> are the attributes \<open>self.Width\<close> and
  \<open>self.Height\<close>; \<open>Log\<close> collects the records the methods hand to \<open>logging\<close>, oldest first.
\<close>

record SCTX =
  CtxWidth :: nat
  CtxHeight :: nat
  StreamingTextureId :: nat
  TextureId :: nat
  StreamingTexture :: "Texture option"
  Texture :: "Texture option"
  OriginalFileData :: bytes
  CompressedPayload :: "bytes option"
  DecompressedPayload :: "bytes option"
  StreamingId :: "nat option"
  Log :: "(level \<times> string) list"

definition logging :: "level \<Rightarrow> string \<Rightarrow> SCTX \<Rightarrow> SCTX" where
  "logging lv msg self = self\<lparr>Log := Log self @ [(lv, msg)]\<rparr>"

text \<open>The exceptions that escape a method of the container.\<close>

datatype exn = AttributeError

subsection \<open>The payload locator\<close>

text \<open>\<open>bytes.find(sub)\<close>: the lowest index at which \<open>sub\<close> starts, \<open>None\<close> for \<open>-1\<close>.\<close>

fun bytes_find :: "bytes \<Rightarrow> bytes \<Rightarrow> nat option" where
  "bytes_find [] sub = (if sub = [] then Some 0 else None)"
| "bytes_find (x # xs) sub =
     (if prefix sub (x # xs) then Some 0 else map_option Suc (bytes_find xs sub))"

text \<open>
  The body of the loop of \<open>FindAndDecompressPayload\<close> over the candidate offsets, for
  one offset. The result is the container and whether the method has returned.
  \<open>len(self.OriginalFileData) - 4\<close> may be negative, so the comparison is on integers.
\<close>

definition probe_offset :: "Capabilities \<Rightarrow> nat \<Rightarrow> SCTX \<Rightarrow> SCTX \<times> bool" where
  "probe_offset ext Offset self =
     (if int Offset < int (length (OriginalFileData self)) - 4
         \<and> take 4 (drop Offset (OriginalFileData self)) = ZstdMagic
      then
        let self = logging INFO (''Found Zstd compressed data at offset '' @ str_of_nat Offset) self;
            payload = drop Offset (OriginalFileData self);
            self = self\<lparr>CompressedPayload := Some payload\<rparr>
        in (case zstd_decompress ext payload 0 of
              Some out \<Rightarrow>
                (logging INFO (''Decompressed payload: '' @ str_of_nat (length payload) @ '' -> ''
                     @ str_of_nat (length out) @ '' bytes'')
                   (self\<lparr>DecompressedPayload := Some out\<rparr>), True)
            | None \<Rightarrow>
                (logging ERROR (''Failed to decompress payload: '' @ zstd_error ext payload 0) self,
                 False))
      else (self, False))"

text \<open>The loop: it stops at the first offset whose body returns.\<close>

fun probe_offsets :: "Capabilities \<Rightarrow> nat list \<Rightarrow> SCTX \<Rightarrow> SCTX \<times> bool" where
  "probe_offsets ext [] self = (self, False)"
| "probe_offsets ext (Offset # Offsets) self =
     (case probe_offset ext Offset self of
        (self', True) \<Rightarrow> (self', True)
      | (self', False) \<Rightarrow> probe_offsets ext Offsets self')"

definition FindAndDecompressPayload :: "Capabilities \<Rightarrow> SCTX \<Rightarrow> SCTX" where
  "FindAndDecompressPayload ext self =
     (let (self, returned) = probe_offsets ext [0, 512, 536, 584, 768, 1024] self in
      if returned then self
      else (case bytes_find (OriginalFileData self) ZstdMagic of
              None \<Rightarrow> self
            | Some Pos \<Rightarrow>
                let self = logging INFO (''Found Zstd compressed data at offset '' @ str_of_nat Pos) self;
                    payload = drop Pos (OriginalFileData self);
                    self = self\<lparr>CompressedPayload := Some payload\<rparr>
                in (case zstd_decompress ext payload 0 of
                      Some out \<Rightarrow>
                        logging INFO (''Decompressed payload: '' @ str_of_nat (length payload)
                            @ '' -> '' @ str_of_nat (length out) @ '' bytes'')
                          (self\<lparr>DecompressedPayload := Some out\<rparr>)
                    | None \<Rightarrow>
                        logging ERROR
                          (''Failed to decompress payload: '' @ zstd_error ext payload 0) self)))"

subsection \<open>The streaming block\<close>

text \<open>
  \<open>SCTX.ReadStreamingTexture\<close>; the parameter \<open>Data\<close> of the three block readers is
  written \<open>data\<close>, apart from the attribute \<open>Data\<close> of a texture. The
  \<open>try\<close>/\<open>except ValueError\<close> around \<open>ScPixel(PixelType)\<close> is the case distinction on
  \<^const>\<open>ScPixel_call\<close>.
\<close>

definition ReadStreamingTexture :: "SCTX \<Rightarrow> bytes \<Rightarrow> SCTX" where
  "ReadStreamingTexture self data =
     (if length data < 28 + 12 then self
      else
        let Reader = Skip (BinaryReader data) 28;
            (W, Reader) = ReadUshort Reader;
            (H, Reader) = ReadUshort Reader;
            (PixelType, Reader) = ReadUint Reader;
            (unused, Reader) = ReadInt Reader;
            Tex =
              (if PixelType \<in> set AstcFormatIds then
                 (case ScPixel_call PixelType of
                    Some p \<Rightarrow> Texture_init (Member p) W H
                  | None \<Rightarrow> Texture_init (RawInt PixelType) W H)
               else if PixelType = 70 then Texture_init (Member RGBA8Unorm_70) W H
               else
                 (case ScPixel_call PixelType of
                    Some p \<Rightarrow> Texture_init (Member p) W H
                  | None \<Rightarrow> Texture_init (RawInt PixelType) W H));
            Tex =
              (if length data - tell Reader \<ge> 4 then
                 let (n, Reader) = ReadUint Reader;
                     Tex = Tex\<lparr>DataLength := n\<rparr>
                 in if n > 0 \<and> length data - tell Reader \<ge> n
                    then Tex\<lparr>Data := Some (fst (read Reader n))\<rparr>
                    else Tex
               else Tex)
        in self\<lparr>StreamingTexture := Some Tex\<rparr>)"

text \<open>
  \<open>SCTX.ReadStreamingData\<close>. A header length that overruns the block makes the method
  return at once.
\<close>

definition ReadStreamingData :: "SCTX \<Rightarrow> bytes \<Rightarrow> SCTX" where
  "ReadStreamingData self data =
     (if length data < 4 then self
      else
        let (HeaderLength, Reader) = ReadUint (BinaryReader data) in
        if HeaderLength > length data - 4 then self
        else
          let Reader = Skip Reader HeaderLength in
          if length data - tell Reader < 14 then self
          else
            let (PixelType, Reader) = ReadUint Reader;
                (W, Reader) = ReadUshort Reader;
                (H, Reader) = ReadUshort Reader;
                (unused, Reader) = ReadInt Reader;
                (Tex, self) =
                  (if PixelType \<in> set AstcFormatIds then
                     (case ScPixel_call PixelType of
                        Some p \<Rightarrow> Texture_init (Member p) W H
                      | None \<Rightarrow> Texture_init (RawInt PixelType) W H,
                      logging INFO (''Detected ASTC format: ID '' @ str_of_nat PixelType) self)
                   else if PixelType = 70 then (Texture_init (Member RGBA8Unorm_70) W H, self)
                   else
                     (case ScPixel_call PixelType of
                        Some p \<Rightarrow> (Texture_init (Member p) W H, self)
                      | None \<Rightarrow>
                          (Texture_init (RawInt PixelType) W H,
                           logging WARNING
                             (''Unknown pixel format detected: '' @ str_of_nat PixelType) self)));
                (Tex, Reader) =
                  (if length data - tell Reader \<ge> 4 then
                     let (n, Reader) = ReadUint Reader in (Tex\<lparr>DataLength := n\<rparr>, Reader)
                   else (Tex, Reader));
                self = self\<lparr>Texture := Some Tex\<rparr>
            in
              if StreamingTextureId self \<noteq> 0 \<and> length data - tell Reader \<ge> 20 then
                let Reader = Skip Reader 16;
                    (self, Reader) =
                      (if length data - tell Reader \<ge> 4 then
                         let (StreamingTextureLength, Reader) = ReadUint Reader in
                         if StreamingTextureLength > 0
                            \<and> length data - tell Reader \<ge> StreamingTextureLength
                         then
                           let (Sub, Reader) = read Reader StreamingTextureLength
                           in (ReadStreamingTexture self Sub, Reader)
                         else (self, Reader)
                       else (self, Reader))
                in if length data - tell Reader \<ge> 4
                   then self\<lparr>StreamingId := Some (fst (ReadUint Reader))\<rparr>
                   else self
              else self)"

subsection \<open>The texture header block\<close>

text \<open>
  \<open>SCTX.ReadTexture\<close>. The method assigns to \<open>self.Texture.Width\<close> without testing
  \<open>self.Texture\<close>: when no texture was created, Python raises \<open>AttributeError\<close>. The hash
  blob is read from the local reader and dropped.
\<close>

definition ReadTexture :: "SCTX \<Rightarrow> bytes \<Rightarrow> exn + SCTX" where
  "ReadTexture self data =
     (if length data < 24 + 10 then Inr self
      else
        let Reader = Skip (BinaryReader data) 24;
            (W, Reader) = ReadUshort Reader
        in (case Texture self of
              None \<Rightarrow> Inl AttributeError
            | Some Tex \<Rightarrow>
                let (H, Reader) = ReadUshort Reader;
                    Tex = Tex\<lparr>Width := W, Height := H\<rparr>;
                    (unused, Reader) = ReadUint Reader;
                    HashData =
                      (if length data - tell Reader \<ge> 4 then
                         let (HashLength, Reader) = ReadUint Reader in
                         if HashLength > 0 \<and> length data - tell Reader \<ge> HashLength
                         then Some (fst (read Reader HashLength))
                         else None
                       else None)
                in Inr (self\<lparr>Texture := Some Tex\<rparr>)))"

subsection \<open>The constructor\<close>

text \<open>
  \<open>SCTX.__init__\<close>, in the order of its statements. The reads of the three top-level
  length fields are named so that what each consumes can be stated:
  \<open>read_streaming_block\<close> is lines 322 to 327, \<open>read_texture_block\<close> lines 331 to 336,
  \<open>read_texture_data\<close> lines 339 to 346 and \<open>repair\<close> lines 348 to 353.
\<close>

definition read_streaming_block :: "SCTX \<Rightarrow> BinaryReader \<Rightarrow> bytes \<times> BinaryReader \<times> SCTX" where
  "read_streaming_block self Reader =
     (let (StreamingLength, Reader) = ReadUint Reader;
          Remaining = length (OriginalFileData self) - tell Reader;
          (StreamingLength, self) =
            (if StreamingLength > Remaining
             then (min StreamingLength Remaining,
                   logging WARNING (''Invalid streaming length '' @ str_of_nat StreamingLength) self)
             else (StreamingLength, self));
          (StreamingData, Reader) = read Reader StreamingLength
      in (StreamingData, Reader, self))"

definition read_texture_block :: "SCTX \<Rightarrow> BinaryReader \<Rightarrow> bytes \<times> BinaryReader \<times> SCTX" where
  "read_texture_block self Reader =
     (let (DataLength, Reader) = ReadUint Reader;
          Remaining = length (OriginalFileData self) - tell Reader;
          (DataLength, self) =
            (if DataLength > Remaining
             then (min DataLength Remaining,
                   logging WARNING (''Invalid data length '' @ str_of_nat DataLength) self)
             else (DataLength, self));
          (data, Reader) = read Reader DataLength
      in (data, Reader, self))"

definition read_texture_data :: "SCTX \<Rightarrow> BinaryReader \<Rightarrow> BinaryReader \<times> SCTX" where
  "read_texture_data self Reader =
     (case Texture self of
        None \<Rightarrow> (Reader, self)
      | Some Tex \<Rightarrow>
          if DataLength Tex > 0 then
            if tell Reader + DataLength Tex \<le> length (OriginalFileData self) then
              let (d, Reader) = read Reader (DataLength Tex)
              in (Reader, self\<lparr>Texture := Some (Tex\<lparr>Data := Some d\<rparr>)\<rparr>)
            else
              let self = logging WARNING
                           (''Texture data length '' @ str_of_nat (DataLength Tex)
                              @ '' exceeds file size'') self;
                  Remaining = length (OriginalFileData self) - tell Reader
              in if Remaining > 0 then
                   let (d, Reader) = read Reader Remaining
                   in (Reader, self\<lparr>Texture := Some (Tex\<lparr>Data := Some d\<rparr>)\<rparr>)
                 else (Reader, self)
          else (Reader, self))"

definition repair :: "SCTX \<Rightarrow> SCTX" where
  "repair self =
     (case Texture self of
        None \<Rightarrow> self
      | Some Tex \<Rightarrow>
          if \<not> truthy (Data Tex) \<or> length (the (Data Tex)) < 16 then
            let self = logging INFO
                         ''Main texture data is too small, checking streaming texture...'' self
            in (case StreamingTexture self of
                  None \<Rightarrow> self
                | Some STex \<Rightarrow>
                    if truthy (Data STex) then
                      (logging INFO ''Using streaming texture data instead'' self)
                        \<lparr>Texture := Some (Tex\<lparr>Data := Data STex, DataLength := DataLength STex\<rparr>)\<rparr>
                    else self)
          else self)"

text \<open>
  The file is given by its bytes. \<open>Reader.tell() < len(self.OriginalFileData) - 4\<close> is a
  comparison of integers: the right-hand side is negative for a file of fewer than 4 bytes.
\<close>

definition SCTX_init :: "Capabilities \<Rightarrow> bytes \<Rightarrow> nat \<Rightarrow> exn + SCTX" where
  "SCTX_init ext FileData StreamingIdOverride =
     (let self = \<lparr>CtxWidth = 0, CtxHeight = 0, StreamingTextureId = StreamingIdOverride,
                  TextureId = 0xFF, StreamingTexture = None, Texture = None,
                  OriginalFileData = FileData, CompressedPayload = None,
                  DecompressedPayload = None, StreamingId = None, Log = []\<rparr>;
          self = FindAndDecompressPayload ext self;
          Reader = BinaryReader (OriginalFileData self);
          (StreamingData, Reader, self) = read_streaming_block self Reader;
          self = ReadStreamingData self StreamingData
      in if int (tell Reader) < int (length (OriginalFileData self)) - 4 then
           let (data, Reader, self) = read_texture_block self Reader
           in (case ReadTexture self data of
                 Inl e \<Rightarrow> Inl e
               | Inr self \<Rightarrow> Inr (repair (snd (read_texture_data self Reader))))
         else Inr (repair self))"

section \<open>The decode dispatcher\<close>

text \<open>
  Python's \<open>range(0, n, step)\<close>, the bytes_slice \<open>xs[i:j]\<close> and the index \<open>xs[i]\<close>, which
  raises \<open>IndexError\<close> (here \<open>None\<close>) out of range.
\<close>

definition range_step :: "nat \<Rightarrow> nat \<Rightarrow> nat list" where
  "range_step n step = map (\<lambda>k. k * step) [0..<(n + step - 1) div step]"

definition bytes_slice :: "bytes \<Rightarrow> nat \<Rightarrow> nat \<Rightarrow> bytes" where
  "bytes_slice xs i j = take (j - i) (drop i xs)"

definition index :: "bytes \<Rightarrow> nat \<Rightarrow> byte option" where
  "index xs i = (if i < length xs then Some (xs ! i) else None)"

text \<open>
  A \<open>for\<close> loop whose body extends a \<open>bytearray\<close>: \<open>body I\<close> is what one iteration
  appends, \<open>None\<close> when it raises, which ends the loop.
\<close>

fun for_extend :: "nat list \<Rightarrow> (nat \<Rightarrow> bytes option) \<Rightarrow> bytes \<Rightarrow> bytes option" where
  "for_extend [] body out = Some out"
| "for_extend (I # Is) body out =
     (case body I of None \<Rightarrow> None | Some bs \<Rightarrow> for_extend Is body (out @ bs))"

text \<open>
  The loop \<open>for I in range(0, len(RgbaData), 4): R, G, B, A = RgbaData[I:I+4];
  BgraData.extend([B, G, R, A])\<close>, which the dispatcher repeats after each decoder that
  yields RGBA. Unpacking a bytes_slice of fewer than four bytes raises \<open>ValueError\<close>.
\<close>

definition reorder_bgra :: "bytes \<Rightarrow> bytes option" where
  "reorder_bgra RgbaData =
     for_extend (range_step (length RgbaData) 4)
       (\<lambda>I. case bytes_slice RgbaData I (I + 4) of
               [R, G, B, A] \<Rightarrow> Some [B, G, R, A]
             | _ \<Rightarrow> None) []"

text \<open>
  \<open>re.search(r'(\d+)x(\d+)', FormatName)\<close>: the leftmost place where a run of digits,
  an \<open>x\<close> and a run of digits follow each other; both runs are taken as long as they go.
\<close>

definition is_digit :: "char \<Rightarrow> bool" where
  "is_digit c = (c \<in> set ''0123456789'')"

definition int_of_digits :: "string \<Rightarrow> nat" where
  "int_of_digits ds = foldl (\<lambda>acc c. 10 * acc + (of_char c - 48)) 0 ds"

fun re_search_block :: "string \<Rightarrow> (nat \<times> nat) option" where
  "re_search_block [] = None"
| "re_search_block (c # cs) =
     (let d1 = takeWhile is_digit (c # cs);
          rest = dropWhile is_digit (c # cs)
      in case rest of
           x # after \<Rightarrow>
             if d1 \<noteq> [] \<and> x = CHR ''x'' \<and> takeWhile is_digit after \<noteq> []
             then Some (int_of_digits d1, int_of_digits (takeWhile is_digit after))
             else re_search_block cs
         | [] \<Rightarrow> re_search_block cs)"

declare re_search_block.simps [simp del]

text \<open>
  What \<open>DecodeTexture\<close> reports when it returns \<open>(None, None)\<close>: the error it logs.
  \<open>DecodeError\<close> is the \<open>except Exception\<close> clause around the dispatch.
\<close>

datatype decode_failure =
    NoTextureData
  | TextureDataTooSmall nat
  | UnsupportedFormat string
  | DecodeError

type_synonym decoded = "decode_failure + bytes \<times> string"

text \<open>A branch that raised is \<open>DecodeError\<close>; otherwise the bytes with their mode.\<close>

definition returning :: "string \<Rightarrow> bytes option \<Rightarrow> decoded" where
  "returning mode r = (case r of None \<Rightarrow> Inl DecodeError | Some out \<Rightarrow> Inr (out, mode))"

text \<open>Lines 502 to 515: the bytes to decode, with the texture as the probes leave it.\<close>

definition select_data ::
  "Capabilities \<Rightarrow> SCTX \<Rightarrow> Texture \<Rightarrow> bool \<Rightarrow> (decode_failure + bytes) \<times> Texture" where
  "select_data ext self TextureObj UseDecompressedPayload =
     (let (TextureData, TextureObj) =
            (if UseDecompressedPayload \<and> truthy (DecompressedPayload self)
               then (Some (DecompressedPayload self), TextureObj)
             else if truthy (Data TextureObj) then
               let (compressed, TextureObj) = IsCompressedData ext TextureObj
               in if compressed
                  then let (d, TextureObj) = DecompressData ext TextureObj in (Some d, TextureObj)
                  else (Some (Data TextureObj), TextureObj)
             else (None, TextureObj))
      in case TextureData of
           None \<Rightarrow> (Inl NoTextureData, TextureObj)
         | Some None \<Rightarrow> (Inl (TextureDataTooSmall 0), TextureObj)
         | Some (Some d) \<Rightarrow>
             if d = [] then (Inl (TextureDataTooSmall 0), TextureObj)
             else if length d < 16 then (Inl (TextureDataTooSmall (length d)), TextureObj)
             else (Inr d, TextureObj))"

text \<open>The branch \<open>elif TextureObj.IsEtc()\<close>; \<open>None\<close> when no test of the chain holds.\<close>

definition decode_etc_family ::
  "Capabilities \<Rightarrow> string \<Rightarrow> bytes \<Rightarrow> nat \<Rightarrow> nat \<Rightarrow> decoded option" where
  "decode_etc_family ext FormatName TextureData W H =
     (if sublist ''ETC1'' FormatName \<or> sublist ''ETC2_RGB8'' FormatName
         \<or> sublist ''ETC2_SRGB8'' FormatName
        then Some (returning ''RGBA'' (Option.bind (decode_etc1 ext TextureData W H) reorder_bgra))
      else if sublist ''ETC2_EAC_RGBA8'' FormatName \<or> sublist ''ETC2_EAC_SRGBA8'' FormatName
        then Some (returning ''RGBA'' (Option.bind (decode_etc2 ext TextureData W H) reorder_bgra))
      else if sublist ''ETC2_RGB8_PUNCHTHROUGH_ALPHA1'' FormatName
              \<or> sublist ''ETC2_SRGB8_PUNCHTHROUGH_ALPHA1'' FormatName
        then Some (returning ''RGBA'' (Option.bind (decode_etc2a1 ext TextureData W H) reorder_bgra))
      else if sublist ''EAC_R11'' FormatName \<or> sublist ''EAC_SIGNED_R11'' FormatName
        then Some (returning ''RGBA''
               (map_option (\<lambda>MonoData. concat (map (\<lambda>Intensity. [Intensity, Intensity, Intensity, 255]) MonoData))
                  (decode_eacr ext TextureData W H (sublist ''SIGNED'' FormatName))))
      else if sublist ''EAC_RG11'' FormatName \<or> sublist ''EAC_SIGNED_RG11'' FormatName
        then Some (returning ''RGBA''
               (Option.bind (decode_eacrg ext TextureData W H (sublist ''SIGNED'' FormatName))
                  (\<lambda>RgData. for_extend (range_step (length RgData) 2)
                     (\<lambda>I. case bytes_slice RgData I (I + 2) of
                             [R, G] \<Rightarrow> Some [0, G, R, 255]
                           | _ \<Rightarrow> None) [])))
      else None)"

text \<open>The branch \<open>elif TextureObj.IsUncompressed()\<close>; \<open>None\<close> when no test of the chain holds.\<close>

definition decode_uncompressed :: "string \<Rightarrow> bytes \<Rightarrow> decoded option" where
  "decode_uncompressed FormatName TextureData =
     (let n = length TextureData; has = (\<lambda>s. sublist s FormatName) in
      if has ''RGBA8Unorm'' then Some (Inr (TextureData, ''RGBA''))
      else if has ''RGBA8'' \<and> \<not> has ''Unorm'' then Some (returning ''RGBA'' (reorder_bgra TextureData))
      else if has ''BGRA8'' \<or> has ''BGRA8Unorm'' \<or> has ''BGRA8_SRGB''
        then Some (Inr (TextureData, ''RGBA''))
      else if has ''RGB8'' \<or> has ''RGB8Unorm'' \<or> has ''RGB8_SRGB'' \<or> has ''RGB8Unorm_sRGB''
        then Some (returning ''RGB''
               (for_extend (range_step n 3)
                  (\<lambda>I. case bytes_slice TextureData I (I + 3) of
                          [R, G, B] \<Rightarrow> Some [R, G, B]
                        | _ \<Rightarrow> None) []))
      else if has ''BGR8'' \<or> has ''BGR8Unorm''
        then Some (returning ''RGB''
               (for_extend (range_step n 3)
                  (\<lambda>I. case bytes_slice TextureData I (I + 3) of
                          [B, G, R] \<Rightarrow> Some [R, G, B]
                        | _ \<Rightarrow> None) []))
      else if has ''RG8'' \<or> has ''RG8Unorm''
        then Some (returning ''RGB''
               (for_extend (range_step n 2)
                  (\<lambda>I. case bytes_slice TextureData I (I + 2) of
                          [R, G] \<Rightarrow> Some [R, G, 0]
                        | _ \<Rightarrow> None) []))
      else if has ''R8'' \<or> has ''R8Unorm''
        then Some (Inr (concat (map (\<lambda>R. [R, R, R]) TextureData), ''RGB''))
      else if has ''R16F'' \<or> has ''R32F''
        then Some (returning ''RGB''
               (for_extend (range_step n (if has ''R16F'' then 2 else 4))
                  (\<lambda>I. do { R \<leftarrow> index TextureData I; Some [R, R, R] }) []))
      else if has ''RG16F'' \<or> has ''RG32F''
        then Some (returning ''RGB''
               (for_extend (range_step n (if has ''RG16F'' then 4 else 8))
                  (\<lambda>I. do { R \<leftarrow> index TextureData I;
                            G \<leftarrow> index TextureData (I + (if has ''RG16F'' then 2 else 4));
                            Some [R, G, 0] }) []))
      else if has ''RGB16F'' \<or> has ''RGB32F''
        then Some (returning ''RGB''
               (for_extend (range_step n (if has ''RGB16F'' then 6 else 12))
                  (\<lambda>I. do { R \<leftarrow> index TextureData I;
                            G \<leftarrow> index TextureData (I + (if has ''RGB16F'' then 2 else 4));
                            B \<leftarrow> index TextureData (I + (if has ''RGB16F'' then 4 else 8));
                            Some [R, G, B] }) []))
      else if has ''RGBA16F'' \<or> has ''RGBA32F''
        then Some (returning ''RGBA''
               (for_extend (range_step n (if has ''RGBA16F'' then 8 else 16))
                  (\<lambda>I. do { R \<leftarrow> index TextureData I;
                            G \<leftarrow> index TextureData (I + (if has ''RGBA16F'' then 2 else 4));
                            B \<leftarrow> index TextureData (I + (if has ''RGBA16F'' then 4 else 8));
                            A \<leftarrow> index TextureData (I + (if has ''RGBA16F'' then 6 else 12));
                            Some [B, G, R, A] }) []))
      else None)"

text \<open>
  Lines 517 to 660: the dispatch on the family. A branch whose inner chain returns nothing
  falls through to the final \<open>Unsupported texture format\<close>.
\<close>

definition dispatch :: "Capabilities \<Rightarrow> Texture \<Rightarrow> bytes \<Rightarrow> decoded" where
  "dispatch ext TextureObj TextureData =
     (let W = Width TextureObj; H = Height TextureObj;
          FormatName = GetFormatName TextureObj;
          unsupported = Inl (UnsupportedFormat FormatName)
      in
        if IsAstc TextureObj then
          (case re_search_block FormatName of
             Some (BlockWidth, BlockHeight) \<Rightarrow>
               returning ''RGBA''
                 (Option.bind (decode_astc ext TextureData W H BlockWidth BlockHeight) reorder_bgra)
           | None \<Rightarrow> unsupported)
        else if IsEtc TextureObj then
          (case decode_etc_family ext FormatName TextureData W H of
             Some r \<Rightarrow> r | None \<Rightarrow> unsupported)
        else if IsUncompressed TextureObj then
          (case decode_uncompressed FormatName TextureData of
             Some r \<Rightarrow> r | None \<Rightarrow> unsupported)
        else if IsPvrtc TextureObj then
          (let Is2Bpp = sublist ''2'' FormatName
           in returning ''RGBA''
                (Option.bind (decode_pvrtc ext TextureData W H Is2Bpp) reorder_bgra))
        else unsupported)"

text \<open>\<open>SCTX.DecodeTexture\<close>: the result and the texture with its caches filled.\<close>

definition DecodeTexture ::
  "Capabilities \<Rightarrow> SCTX \<Rightarrow> Texture \<Rightarrow> bool \<Rightarrow> decoded \<times> Texture" where
  "DecodeTexture ext self TextureObj UseDecompressedPayload =
     (case select_data ext self TextureObj UseDecompressedPayload of
        (Inl failure, TextureObj) \<Rightarrow> (Inl failure, TextureObj)
      | (Inr TextureData, TextureObj) \<Rightarrow> (dispatch ext TextureObj TextureData, TextureObj))"

section \<open>Notions used in the statements\<close>

text \<open>The uncompressed members of the enumeration, by the number of channels they store.\<close>

definition four_channel :: "ScPixel list" where
  "four_channel =
    [RGBA8, RGBA8_SIGNED, RGBA16, RGBA16_SIGNED, RGBA16F, RGBA32F, BGRA8, BGRA8_SRGB,
     RGBA8Unorm, RGBA8Unorm_sRGB, BGRA8Unorm, RGBA8Unorm_70]"

definition three_channel :: "ScPixel list" where
  "three_channel =
    [RGB8, RGB8_SIGNED, RGB16, RGB16_SIGNED, RGB16F, RGB32F, BGR8, RGB8Unorm,
     RGB8Unorm_sRGB, BGR8Unorm]"

definition two_channel :: "ScPixel list" where
  "two_channel = [RG8, RG8_SIGNED, RG16, RG16_SIGNED, RG16F, RG32F, RG8Unorm]"

definition one_channel :: "ScPixel list" where
  "one_channel = [R8, R8_SIGNED, R16, R16_SIGNED, R16F, R32F, R8Unorm]"

text \<open>
  The block-compressed members with a size formula: the ASTC members with the footprint
  their name gives, the ETC2 members that carry RGBA, and the other ETC and EAC members.
  The PVRTC members are listed apart.
\<close>

definition astc_footprints :: "(ScPixel \<times> nat \<times> nat) list" where
  "astc_footprints =
    [(ASTC_SRGBA8_4x4, 4, 4), (ASTC_SRGBA8_5x4, 5, 4), (ASTC_SRGBA8_5x5, 5, 5),
     (ASTC_SRGBA8_6x5, 6, 5), (ASTC_SRGBA8_6x6, 6, 6), (ASTC_SRGBA8_8x5, 8, 5),
     (ASTC_SRGBA8_8x6, 8, 6), (ASTC_SRGBA8_8x8, 8, 8), (ASTC_SRGBA8_10x5, 10, 5),
     (ASTC_SRGBA8_10x6, 10, 6), (ASTC_SRGBA8_10x8, 10, 8), (ASTC_SRGBA8_10x10, 10, 10),
     (ASTC_SRGBA8_12x10, 12, 10), (ASTC_SRGBA8_12x12, 12, 12),
     (ASTC_RGBA8_4x4, 4, 4), (ASTC_RGBA8_5x4, 5, 4), (ASTC_RGBA8_5x5, 5, 5),
     (ASTC_RGBA8_6x5, 6, 5), (ASTC_RGBA8_6x6, 6, 6), (ASTC_RGBA8_8x5, 8, 5),
     (ASTC_RGBA8_8x6, 8, 6), (ASTC_RGBA8_8x8, 8, 8), (ASTC_RGBA8_10x5, 10, 5),
     (ASTC_RGBA8_10x6, 10, 6), (ASTC_RGBA8_10x8, 10, 8), (ASTC_RGBA8_10x10, 10, 10),
     (ASTC_RGBA8_12x10, 12, 10), (ASTC_RGBA8_12x12, 12, 12)]"

definition etc_rgba :: "ScPixel list" where
  "etc_rgba = [ETC2_EAC_RGBA8, ETC2_EAC_SRGBA8]"

definition etc_other :: "ScPixel list" where
  "etc_other =
    [EAC_R11, EAC_SIGNED_R11, EAC_RG11, EAC_SIGNED_RG11, ETC2_RGB8, ETC2_SRGB8,
     ETC2_RGB8_PUNCHTHROUGH_ALPHA1, ETC2_SRGB8_PUNCHTHROUGH_ALPHA1, ETC1_RGB8]"

definition pvrtc_2bpp :: "ScPixel list" where
  "pvrtc_2bpp =
    [PVRTC1_RGB2, PVRTC1_SRGB2, PVRTC1_RGBA2, PVRTC1_SRGBA2, PVRTC2_RGBA2, PVRTC2_SRGBA2]"

definition pvrtc_4bpp :: "ScPixel list" where
  "pvrtc_4bpp =
    [PVRTC1_RGB4, PVRTC1_SRGB4, PVRTC1_RGBA4, PVRTC1_SRGBA4, PVRTC2_RGBA4, PVRTC2_SRGBA4]"

text \<open>The quotient of two naturals, rounded up.\<close>

definition ceil_div :: "nat \<Rightarrow> nat \<Rightarrow> nat" where
  "ceil_div w b = nat \<lceil>real w / real b\<rceil>"

text \<open>Fixtures for closed instances: a library in which every call raises, and a
  container as \<open>SCTX.__init__\<close> first sets it up, over the given file.\<close>

definition no_library :: Capabilities where
  "no_library =
     \<lparr>zstd_decompress = (\<lambda>d m. None), zstd_error = (\<lambda>d m. ''not a zstd frame''),
      decode_astc = (\<lambda>d w h bw bh. None),
      decode_etc1 = (\<lambda>d w h. None), decode_etc2 = (\<lambda>d w h. None),
      decode_etc2a1 = (\<lambda>d w h. None), decode_eacr = (\<lambda>d w h s. None),
      decode_eacrg = (\<lambda>d w h s. None), decode_pvrtc = (\<lambda>d w h b. None)\<rparr>"

definition fresh :: "bytes \<Rightarrow> SCTX" where
  "fresh FileData =
     \<lparr>CtxWidth = 0, CtxHeight = 0, StreamingTextureId = 0xFF, TextureId = 0xFF,
      StreamingTexture = None, Texture = None, OriginalFileData = FileData,
      CompressedPayload = None, DecompressedPayload = None, StreamingId = None, Log = []\<rparr>"

text \<open>The permutation of each four-byte pixel from R, G, B, A to B, G, R, A.\<close>

fun swap_red_blue :: "bytes \<Rightarrow> bytes" where
  "swap_red_blue (R # G # B # A # rest) = B # G # R # A # swap_red_blue rest"
| "swap_red_blue rest = rest"

text \<open>
  The 8-bit RGBA members whose name has no \<open>Unorm\<close>, and the 8-bit members the dispatcher
  returns as they are.
\<close>

definition rgba8_plain :: "ScPixel list" where
  "rgba8_plain = [RGBA8, RGBA8_SIGNED]"

definition rgba8_untouched :: "ScPixel list" where
  "rgba8_untouched = [RGBA8Unorm, RGBA8Unorm_sRGB, RGBA8Unorm_70, BGRA8, BGRA8_SRGB, BGRA8Unorm]"

text \<open>A library whose PVRTC decoder answers with the flag it was given: four bytes 2 for
  the 2-bpp mode, four bytes 4 otherwise.\<close>

definition flag_probe :: Capabilities where
  "flag_probe =
     no_library\<lparr>decode_pvrtc := (\<lambda>d w h Is2Bpp. Some (if Is2Bpp then [2, 2, 2, 2] else [4, 4, 4, 4]))\<rparr>"

text \<open>Sixteen bytes that carry no Zstandard signature.\<close>

definition sixteen :: bytes where
  "sixteen = [0, 1, 2, 3, 4, 5, 6, 7, 8, 9, 10, 11, 12, 13, 14, 15]"

text \<open>
  A library whose ETC1 decoder answers with the width and height it was given, and two
  parsed containers whose main texture, 8 x 6, has three bytes of data: in the first the
  streaming texture, 4 x 2, has sixteen bytes, in the second five.
\<close>

definition dims_probe :: Capabilities where
  "dims_probe = no_library\<lparr>decode_etc1 := (\<lambda>d w h. Some [of_nat w, of_nat h, 0, 0])\<rparr>"

definition small_main :: SCTX where
  "small_main =
     (fresh [])
       \<lparr>StreamingTexture :=
          Some ((Texture_init (Member ETC2_RGB8) 4 2)\<lparr>DataLength := 16, Data := Some sixteen\<rparr>),
        Texture :=
          Some ((Texture_init (Member ETC2_RGB8) 8 6)\<lparr>DataLength := 3, Data := Some [1, 2, 3]\<rparr>)\<rparr>"

definition small_both :: SCTX where
  "small_both =
     (fresh [])
       \<lparr>StreamingTexture :=
          Some ((Texture_init (Member ETC2_RGB8) 4 2)\<lparr>DataLength := 5, Data := Some [1, 2, 3, 4, 5]\<rparr>),
        Texture :=
          Some ((Texture_init (Member ETC2_RGB8) 8 6)\<lparr>DataLength := 3, Data := Some [1, 2, 3]\<rparr>)\<rparr>"



text \<open>
  A 42-byte file: an empty streaming block, then a texture header block of 34 bytes.
\<close>

definition headless_file :: bytes where
  "headless_file =
     [0, 0, 0, 0, 34, 0, 0, 0,
      0, 0, 0, 0, 0, 0, 0, 0, 0, 0, 0, 0, 0, 0, 0, 0, 0, 0, 0, 0, 0, 0, 0, 0,
      0, 0, 4, 0, 4, 0, 0, 0, 0, 0]"

text \<open>
  A file that starts with the Zstandard signature, and a library that decompresses it to
  100 MiB + 1 bytes when it is given no ceiling (\<open>max_output_size = 0\<close>) or one the output
  fits in, and raises when the output exceeds the ceiling it is given.
\<close>

definition bomb_file :: bytes where
  "bomb_file = [0x28, 0xb5, 0x2f, 0xfd, 0]"

definition bomb_output :: bytes where
  "bomb_output = replicate (100 * 1024 * 1024 + 1) 0"

definition bomb_library :: Capabilities where
  "bomb_library =
     no_library\<lparr>zstd_decompress :=
       (\<lambda>d m. if m = 0 \<or> length bomb_output \<le> m then Some bomb_output else None)\<rparr>"

section \<open>Evaluating the name tests\<close>

lemmas name_tests = sublist_Cons_right

lemmas family_defs =
  IsAstc_def IsEtc_def IsPvrtc_def IsUncompressed_def IsSrgb_def GetFormatName_def
  AstcFormatIds_def UncompressedFormats_def

text \<open>The calculator's \<open>(w + b - 1) // b\<close> is the rounded-up quotient.\<close>

lemma ceil_div_code:
  assumes "0 < b"
  shows "ceil_div w b = (w + b - 1) div b"
proof -
  define n where "n = (w + b - 1) div b"
  have eq: "n * b + (w + b - 1) mod b = w + b - 1"
    unfolding n_def by simp
  have lt: "(w + b - 1) mod b < b"
    using assms by simp
  have A: "w \<le> n * b"
    using eq lt assms by linarith
  have B: "n * b < w + b"
    using eq assms by linarith
  have "real w \<le> real (n * b)"
    using A of_nat_le_iff by blast
  then have 1: "real w / real b \<le> real n"
    using assms by (simp add: divide_le_eq)
  have "real (n * b) < real (w + b)"
    using B of_nat_less_iff by blast
  then have 2: "real n - 1 < real w / real b"
    using assms by (simp add: less_divide_eq algebra_simps)
  have "\<lceil>real w / real b\<rceil> = int n"
    by (rule ceiling_unique) (use 1 2 in simp_all)
  then show ?thesis
    by (simp add: n_def ceil_div_def)
qed

section \<open>What source selection leaves unchanged\<close>

text \<open>
  The probes fill the caches of the texture and nothing else, so the dispatch after source
  selection sees the format and the dimensions of the texture it was given.
\<close>

lemma IsCompressedData_keeps:
  "IsCompressedData ext t = (c, t') \<Longrightarrow>
     PixelType t' = PixelType t \<and> Width t' = Width t \<and> Height t' = Height t \<and> Data t' = Data t"
  by (auto simp: IsCompressedData_def split: option.splits if_splits)

lemma DecompressData_keeps:
  "DecompressData ext t = (d, t') \<Longrightarrow>
     PixelType t' = PixelType t \<and> Width t' = Width t \<and> Height t' = Height t \<and> Data t' = Data t"
  by (auto simp: DecompressData_def Let_def split: option.splits if_splits prod.splits
      dest!: IsCompressedData_keeps)

lemma select_data_keeps:
  "select_data ext self t u = (r, t') \<Longrightarrow>
     PixelType t' = PixelType t \<and> Width t' = Width t \<and> Height t' = Height t \<and> Data t' = Data t"
  by (auto simp: select_data_def Let_def split: option.splits if_splits prod.splits
      dest!: IsCompressedData_keeps DecompressData_keeps)

lemma dispatch_cong:
  assumes "PixelType t' = PixelType t" and "Width t' = Width t" and "Height t' = Height t"
  shows "dispatch ext t' d = dispatch ext t d"
proof -
  have n: "GetFormatName t' = GetFormatName t"
    using assms by (simp add: GetFormatName_def)
  have f: "IsAstc t' = IsAstc t" "IsEtc t' = IsEtc t" "IsPvrtc t' = IsPvrtc t"
    using assms n by (simp_all add: IsAstc_def IsEtc_def IsPvrtc_def)
  have u: "IsUncompressed t' = IsUncompressed t"
    using n f by (simp add: IsUncompressed_def)
  show ?thesis
    unfolding dispatch_def n f u assms(2,3) ..
qed

lemma DecodeTexture_selected:
  "select_data ext self t u = (Inr d, t') \<Longrightarrow> fst (DecodeTexture ext self t u) = dispatch ext t d"
  by (auto simp: DecodeTexture_def dest!: select_data_keeps intro: dispatch_cong)

lemma select_data_size:
  "select_data ext self t u = (Inr d, t') \<Longrightarrow> 16 \<le> length d"
  by (auto simp: select_data_def Let_def split: option.splits if_splits prod.splits)

section \<open>The reordering loop\<close>

text \<open>
  On data whose length is a multiple of four the loop never raises and permutes every
  pixel.
\<close>

lemma four_prefix:
  "4 \<le> length xs \<Longrightarrow> \<exists>x0 x1 x2 x3 rest. xs = x0 # x1 # x2 # x3 # rest"
  by (simp add: eval_nat_numeral Suc_le_length_iff) blast

lemma for_extend_swap:
  "4 * (a + m) \<le> length d \<Longrightarrow>
   for_extend (map (\<lambda>k. k * 4) [a..<a + m])
     (\<lambda>I. case bytes_slice d I (I + 4) of [R, G, B, A] \<Rightarrow> Some [B, G, R, A] | _ \<Rightarrow> None) acc
   = Some (acc @ swap_red_blue (take (4 * m) (drop (4 * a) d)))"
proof (induction m arbitrary: a acc)
  case 0
  then show ?case by simp
next
  case (Suc m)
  let ?body = "\<lambda>I. case bytes_slice d I (I + 4) of [R, G, B, A] \<Rightarrow> Some [B, G, R, A] | _ \<Rightarrow> None"
  from Suc.prems have len: "4 \<le> length (drop (4 * a) d)"
    by simp
  from four_prefix [OF len] obtain x0 x1 x2 x3 rest
    where xs: "drop (4 * a) d = x0 # x1 # x2 # x3 # rest"
    by blast
  have "drop (4 * Suc a) d = drop 4 (drop (4 * a) d)"
    by (simp add: add.commute)
  then have rest: "drop (4 * Suc a) d = rest"
    using xs by simp
  have sl: "bytes_slice d (a * 4) (a * 4 + 4) = [x0, x1, x2, x3]"
    using xs by (simp add: bytes_slice_def mult.commute)
  have up: "[a..<a + Suc m] = a # [Suc a..<Suc a + m]"
    by (simp add: upt_conv_Cons)
  have e: "4 * Suc m = Suc (Suc (Suc (Suc (4 * m))))"
    by simp
  have tk: "take (4 * Suc m) (drop (4 * a) d) = x0 # x1 # x2 # x3 # take (4 * m) rest"
    unfolding xs e by simp
  have "4 * (Suc a + m) \<le> length d"
    using Suc.prems by simp
  from Suc.IH [OF this, of "acc @ [x2, x1, x0, x3]"]
  have IH: "for_extend (map (\<lambda>k. k * 4) [Suc a..<Suc a + m]) ?body (acc @ [x2, x1, x0, x3])
      = Some ((acc @ [x2, x1, x0, x3]) @ swap_red_blue (take (4 * m) rest))"
    unfolding rest .
  have step: "for_extend (map (\<lambda>k. k * 4) (a # [Suc a..<Suc a + m])) ?body acc
      = for_extend (map (\<lambda>k. k * 4) [Suc a..<Suc a + m]) ?body (acc @ [x2, x1, x0, x3])"
    by (simp add: sl)
  show ?case
    unfolding up step IH tk by simp
qed

lemma reorder_bgra_swap:
  assumes "4 dvd length d"
  shows "reorder_bgra d = Some (swap_red_blue d)"
proof -
  from assms obtain n where n: "length d = 4 * n"
    by (auto simp: dvd_def)
  have "(length d + 4 - 1) div 4 = n"
    using n by simp
  then have "range_step (length d) 4 = map (\<lambda>k. k * 4) [0..<0 + n]"
    by (simp add: range_step_def)
  moreover have "4 * (0 + n) \<le> length d"
    using n by simp
  ultimately show ?thesis
    using for_extend_swap [of 0 n d "[]"] n by (simp add: reorder_bgra_def)
qed

section \<open>Codes the enumeration does not have\<close>

text \<open>
  The name of an unrecognized code outside the ASTC ranges consists of the characters of
  \<open>UNKNOWN ()\<close> and digits, so no family name occurs in it.
\<close>

lemma AstcFormatIds_list:
  "AstcFormatIds = [186, 187, 188, 189, 190, 191, 192, 193, 194, 195, 196, 197, 198, 199, 200,
                    204, 205, 206, 207, 208, 209, 210, 211, 212, 213, 214, 215, 216, 217, 218]"
  by (simp add: AstcFormatIds_def upt_conv_Cons)

lemma digit_char_in: "d < 10 \<Longrightarrow> digit_char d \<in> set ''0123456789''"
  unfolding digit_char_def by (rule nth_mem) simp

lemma str_of_nat_digits: "set (str_of_nat n) \<subseteq> set ''0123456789''"
proof (induction n rule: str_of_nat.induct)
  case (1 n)
  show ?case
  proof (cases "n < 10")
    case True
    then show ?thesis
      using digit_char_in [of n] by (subst str_of_nat.simps) simp
  next
    case False
    then show ?thesis
      using 1 digit_char_in [of "n mod 10"] by (subst str_of_nat.simps) simp
  qed
qed

lemma astc_ids_known:
  "\<forall>n \<in> set AstcFormatIds. n \<noteq> 191 \<and> n \<noteq> 209 \<longrightarrow> ScPixel_call n \<noteq> None"
  unfolding AstcFormatIds_list by (simp add: ScPixel_call_def ScPixel_members_def ScPixel_defs)

lemma call70: "ScPixel_call 70 \<noteq> None"
  by (simp add: ScPixel_call_def ScPixel_members_def ScPixel_defs)

lemma no_sublist: "c \<in> set xs \<Longrightarrow> c \<notin> set ys \<Longrightarrow> \<not> sublist xs ys"
  using set_mono_sublist by blast

lemma unknown_name:
  assumes "ScPixel_call n = None" and "n \<notin> set AstcFormatIds" and "PixelType t = RawInt n"
  shows "GetFormatName t = ''UNKNOWN ('' @ str_of_nat n @ '')''"
  using assms call70 by (auto simp: GetFormatName_def)

lemma unknown_chars:
  "set (''UNKNOWN ('' @ str_of_nat n @ '')'') \<subseteq> set (''UNKNOWN ('' @ ''0123456789'' @ '')'')"
  using str_of_nat_digits [of n] unfolding set_append by blast

lemma unknown_plain:
  assumes "ScPixel_call n = None" and "n \<notin> set AstcFormatIds" and "PixelType t = RawInt n"
  shows "\<not> IsAstc t \<and> \<not> IsEtc t \<and> \<not> IsPvrtc t \<and> \<not> IsUncompressed t \<and> \<not> IsSrgb t"
proof -
  let ?name = "GetFormatName t"
  have chars: "set ?name \<subseteq> set (''UNKNOWN ('' @ ''0123456789'' @ '')'')"
    using unknown_name [OF assms] unknown_chars [of n] by simp
  have no: "\<not> sublist xs ?name" if "c \<in> set xs" and "c \<notin> set (''UNKNOWN ('' @ ''0123456789'' @ '')'')" for c xs
    using that chars no_sublist [of c xs ?name] by blast
  have A: "\<not> sublist ''ASTC'' ?name" by (rule no [of "CHR ''A''"]) simp_all
  have E1: "\<not> sublist ''ETC'' ?name" by (rule no [of "CHR ''E''"]) simp_all
  have E2: "\<not> sublist ''EAC'' ?name" by (rule no [of "CHR ''E''"]) simp_all
  have P: "\<not> sublist ''PVRTC'' ?name" by (rule no [of "CHR ''P''"]) simp_all
  have S1: "\<not> sublist ''SRGB'' ?name" by (rule no [of "CHR ''S''"]) simp_all
  have S2: "\<not> sublist ''SRGBA'' ?name" by (rule no [of "CHR ''S''"]) simp_all
  have S3: "\<not> sublist ''sRGB'' ?name" by (rule no [of "CHR ''s''"]) simp_all
  have R: "\<not> sublist xs ?name" if "CHR ''R'' \<in> set xs" for xs
    by (rule no [of "CHR ''R''"]) (use that in simp_all)
  have U: "\<not> list_ex (\<lambda>Fmt. sublist Fmt ?name) UncompressedFormats"
    by (simp add: UncompressedFormats_def R)
  show ?thesis
    using A E1 E2 P S1 S2 S3 U assms(2,3) by (simp add: IsAstc_def IsEtc_def IsPvrtc_def IsUncompressed_def IsSrgb_def)
qed

lemma re_search_no_x: "CHR ''x'' \<notin> set s \<Longrightarrow> re_search_block s = None"
proof (induction s)
  case Nil
  show ?case by (simp add: re_search_block.simps)
next
  case (Cons c cs)
  then have IH: "re_search_block cs = None"
    by simp
  show ?case
  proof (cases "dropWhile is_digit (c # cs)")
    case Nil
    then show ?thesis
      using IH by (simp only: re_search_block.simps Let_def list.case)
  next
    case (Cons y after)
    have "y \<in> set (dropWhile is_digit (c # cs))"
      unfolding Cons by simp
    then have "y \<in> set (c # cs)"
      by (rule set_dropWhileD)
    then have "y \<noteq> CHR ''x''"
      using Cons.prems by auto
    then show ?thesis
      using IH Cons by (simp only: re_search_block.simps Let_def list.case simp_thms if_False)
  qed
qed
lemma re191:
  "re_search_block ''ASTC_UNKNOWN_191'' = None"
  "re_search_block ''ASTC_UNKNOWN_209'' = None"
  by (rule re_search_no_x, simp)+

lemma str_191_209: "str_of_nat 191 = ''191''" "str_of_nat 209 = ''209''"
  by (simp_all add: str_of_nat.simps digit_char_def)

lemma call_191_209: "ScPixel_call 191 = None" "ScPixel_call 209 = None"
  by (simp_all add: ScPixel_call_def ScPixel_members_def ScPixel_defs)

lemma unknown_astc_name:
  assumes "n = 191 \<or> n = 209" and "PixelType t = RawInt n"
  shows "GetFormatName t = ''ASTC_UNKNOWN_'' @ str_of_nat n"
  using assms by (auto simp: GetFormatName_def AstcFormatIds_def AstcIdToName_def)

lemma unknown_astc:
  assumes "n = 191 \<or> n = 209" and "PixelType t = RawInt n"
  shows "IsAstc t \<and> \<not> IsEtc t \<and> \<not> IsPvrtc t \<and> \<not> IsUncompressed t \<and> \<not> IsSrgb t
     \<and> re_search_block (GetFormatName t) = None"
  using assms(1)
proof
  assume "n = 191"
  then have n: "GetFormatName t = ''ASTC_UNKNOWN_191''"
    using unknown_astc_name [OF assms] by (simp add: str_191_209)
  have "re_search_block (GetFormatName t) = None"
    unfolding n by (rule re191)
  moreover have "IsAstc t \<and> \<not> IsEtc t \<and> \<not> IsPvrtc t \<and> \<not> IsUncompressed t \<and> \<not> IsSrgb t"
    unfolding IsAstc_def IsEtc_def IsPvrtc_def IsUncompressed_def IsSrgb_def n
    by (simp add: name_tests)
  ultimately show ?thesis
    by simp
next
  assume "n = 209"
  then have n: "GetFormatName t = ''ASTC_UNKNOWN_209''"
    using unknown_astc_name [OF assms] by (simp add: str_191_209)
  have "re_search_block (GetFormatName t) = None"
    unfolding n by (rule re191)
  moreover have "IsAstc t \<and> \<not> IsEtc t \<and> \<not> IsPvrtc t \<and> \<not> IsUncompressed t \<and> \<not> IsSrgb t"
    unfolding IsAstc_def IsEtc_def IsPvrtc_def IsUncompressed_def IsSrgb_def n
    by (simp add: name_tests)
  ultimately show ?thesis
    by simp
qed

lemma unknown_dispatch:
  assumes "ScPixel_call n = None" and "PixelType t = RawInt n"
  shows "dispatch ext t d = Inl (UnsupportedFormat (GetFormatName t))"
proof (cases "n \<in> set AstcFormatIds")
  case True
  with assms(1) astc_ids_known have "n = 191 \<or> n = 209"
    by blast
  from unknown_astc [OF this assms(2)] show ?thesis
    by (simp add: dispatch_def)
next
  case False
  from unknown_plain [OF assms(1) False assms(2)] show ?thesis
    by (simp add: dispatch_def)
qed

section \<open>Decoding after source selection\<close>

lemma DecodeTexture_fst:
  "fst (DecodeTexture ext self t u) =
     (case fst (select_data ext self t u) of Inl f \<Rightarrow> Inl f | Inr d \<Rightarrow> dispatch ext t d)"
proof (cases "select_data ext self t u")
  case (Pair r t')
  then show ?thesis
    using DecodeTexture_selected [of ext self t u _ t']
    by (cases r) (simp_all add: DecodeTexture_def)
qed

lemma select_uncompressed:
  assumes "Data t = Some sd" and "sd \<noteq> []" and "fst (IsCompressedData ext t) = False"
  shows "fst (select_data ext self t False) =
     (if length sd < 16 then Inl (TextureDataTooSmall (length sd)) else Inr sd)"
proof (cases "IsCompressedData ext t")
  case (Pair c t')
  with assms(3) have c: "c = False" by simp
  from IsCompressedData_keeps [OF Pair] assms(1) have d: "Data t' = Some sd" by simp
  from assms(1,2) Pair c d show ?thesis
    by (simp add: select_data_def truthy_def)
qed

lemma repair_substitutes:
  assumes "Texture self = Some Tex"
    and "\<not> truthy (Data Tex) \<or> length (the (Data Tex)) < 16"
    and "StreamingTexture self = Some STex" and "truthy (Data STex)"
  shows "repair self =
     (logging INFO ''Using streaming texture data instead''
        (logging INFO ''Main texture data is too small, checking streaming texture...'' self))
       \<lparr>Texture := Some (Tex\<lparr>Data := Data STex, DataLength := DataLength STex\<rparr>)\<rparr>"
  using assms by (auto simp: repair_def logging_def Let_def)

lemma etc2_rgb8_dispatch:
  "PixelType t = Member ETC2_RGB8 \<Longrightarrow>
   dispatch ext t d = returning ''RGBA''
     (Option.bind (decode_etc1 ext d (Width t) (Height t)) reorder_bgra)"
  by (simp add: dispatch_def ScPixel_defs family_defs name_tests decode_etc_family_def Let_def)

lemma probe_says_uncompressed:
  assumes "IsCompressedDataFlag t = None" and "Data t = Some d"
    and "take 4 d \<noteq> ZstdMagic" and "zstd_decompress ext (take (min 100 (length d)) d) 1000 = None"
  shows "fst (IsCompressedData ext t) = False"
  using assms by (simp add: IsCompressedData_def)

section \<open>The reads of the top-level length fields\<close>



lemma streaming_block_eq:
  assumes "ReadUint Reader = (L, r1)" and "R = length (OriginalFileData self) - tell r1"
  shows "read_streaming_block self Reader =
     (fst (read r1 (min L R)), snd (read r1 (min L R)),
      if R < L then logging WARNING (''Invalid streaming length '' @ str_of_nat L) self else self)"
  using assms by (simp add: read_streaming_block_def Let_def case_prod_beta min_def)

lemma texture_block_eq:
  assumes "ReadUint Reader = (L, r1)" and "R = length (OriginalFileData self) - tell r1"
  shows "read_texture_block self Reader =
     (fst (read r1 (min L R)), snd (read r1 (min L R)),
      if R < L then logging WARNING (''Invalid data length '' @ str_of_nat L) self else self)"
  using assms by (simp add: read_texture_block_def Let_def case_prod_beta min_def)





section \<open>The texture header block without a texture\<close>

lemma ReadTexture_raises_iff:
  "ReadTexture self data = Inl AttributeError \<longleftrightarrow> 34 \<le> length data \<and> Texture self = None"
  by (auto simp: ReadTexture_def Let_def case_prod_beta split: option.splits)

lemma no_magic_headless:
  "OriginalFileData self = headless_file \<Longrightarrow> FindAndDecompressPayload ext self = self"
  by (simp add: FindAndDecompressPayload_def probe_offset_def headless_file_def ZstdMagic_def)

section \<open>The payload locator's call of the decompressor\<close>

lemma bomb_length: "length bomb_output = 100 * 1024 * 1024 + 1"
  by (simp only: bomb_output_def length_replicate)

lemma probe_far:
  "length (OriginalFileData c) = 5 \<Longrightarrow> 0 < Offset \<Longrightarrow> probe_offset ext Offset c = (c, False)"
  by (simp add: probe_offset_def)

lemma bomb_file_facts:
  "OriginalFileData (fresh bomb_file) = bomb_file"
  "take 4 bomb_file = ZstdMagic" "length bomb_file = 5"
  by (simp_all add: fresh_def bomb_file_def ZstdMagic_def)

lemma probe_zero_fail:
  assumes "zstd_decompress ext bomb_file 0 = None"
  shows "probe_offset ext 0 (fresh bomb_file) =
     (logging ERROR (''Failed to decompress payload: '' @ zstd_error ext bomb_file 0)
        ((logging INFO (''Found Zstd compressed data at offset '' @ str_of_nat 0)
            (fresh bomb_file))\<lparr>CompressedPayload := Some bomb_file\<rparr>), False)"
  using assms by (simp add: probe_offset_def bomb_file_facts Let_def logging_def)

lemma probe_zero_ok:
  assumes "zstd_decompress ext bomb_file 0 = Some out"
  shows "probe_offset ext 0 (fresh bomb_file) =
     (logging INFO (''Decompressed payload: '' @ str_of_nat (length bomb_file) @ '' -> ''
          @ str_of_nat (length out) @ '' bytes'')
        (((logging INFO (''Found Zstd compressed data at offset '' @ str_of_nat 0)
              (fresh bomb_file))\<lparr>CompressedPayload := Some bomb_file\<rparr>)
           \<lparr>DecompressedPayload := Some out\<rparr>), True)"
  using assms by (simp add: probe_offset_def bomb_file_facts Let_def logging_def)

lemma find_zero: "bytes_find bomb_file ZstdMagic = Some 0"
  by (simp add: bomb_file_def ZstdMagic_def)

lemma logging_keeps:
  "OriginalFileData (logging lv msg c) = OriginalFileData c"
  "DecompressedPayload (logging lv msg c) = DecompressedPayload c"
  by (simp_all add: logging_def)

lemma locator_passes_no_ceiling:
  "DecompressedPayload (FindAndDecompressPayload ext (fresh bomb_file))
     = zstd_decompress ext bomb_file 0"
proof (cases "zstd_decompress ext bomb_file 0")
  case None
  have n: "DecompressedPayload (fresh bomb_file) = None"
    by (simp add: fresh_def)
  show ?thesis
    using None
    by (simp add: FindAndDecompressPayload_def probe_zero_fail [OF None] probe_far
        logging_keeps bomb_file_facts find_zero n)
next
  case (Some out)
  show ?thesis
    using Some
    by (simp add: FindAndDecompressPayload_def probe_zero_ok [OF Some] logging_keeps)
qed

lemma bomb_unbounded: "zstd_decompress bomb_library d 0 = Some bomb_output"
  by (simp add: bomb_library_def)

lemma bomb_bounded: "zstd_decompress bomb_library d (100 * 1024 * 1024) = None"
  by (simp add: bomb_library_def bomb_length)

lemma sibling_keeps_ceiling:
  "fst (DecompressData bomb_library ((Texture_init (Member RGBA8) 0 0)\<lparr>Data := Some bomb_file\<rparr>))
     = Some bomb_file"
proof -
  have ne: "bomb_file \<noteq> []"
    by (simp add: bomb_file_def)
  show ?thesis
    using bomb_bounded [of bomb_file]
    by (simp add: DecompressData_def IsCompressedData_def Texture_init_def
        CalculateExpectedSize_def Let_def bomb_file_facts ne)
qed

section \<open>The file a container holds\<close>

text \<open>
  Neither the payload locator nor the streaming-block parser changes \<open>OriginalFileData\<close>,
  so at each top-level read of \<open>SCTX.__init__\<close> the reader's buffer is the container's
  file.
\<close>

lemma ReadStreamingTexture_file:
  "OriginalFileData (ReadStreamingTexture self data) = OriginalFileData self"
  by (simp add: ReadStreamingTexture_def Let_def case_prod_beta)

lemma ReadStreamingData_file:
  "OriginalFileData (ReadStreamingData self data) = OriginalFileData self"
  by (simp add: ReadStreamingData_def Let_def case_prod_beta logging_keeps
      ReadStreamingTexture_file split: option.split)

lemma probe_offset_file:
  "OriginalFileData (fst (probe_offset ext Offset self)) = OriginalFileData self"
  by (simp add: probe_offset_def Let_def logging_keeps split: option.split)

lemma probe_offsets_file:
  "OriginalFileData (fst (probe_offsets ext Offsets self)) = OriginalFileData self"
proof (induction Offsets arbitrary: self)
  case Nil
  show ?case by simp
next
  case (Cons Offset Offsets)
  show ?case
    using Cons [of "fst (probe_offset ext Offset self)"] probe_offset_file [of ext Offset self]
    by (cases "probe_offset ext Offset self") (auto split: bool.splits)
qed

lemma FindAndDecompressPayload_file:
  "OriginalFileData (FindAndDecompressPayload ext self) = OriginalFileData self"
  using probe_offsets_file [of ext "[0, 512, 536, 584, 768, 1024]" self]
  by (simp add: FindAndDecompressPayload_def Let_def case_prod_beta logging_keeps
      split: option.split)

section \<open>The byte cursor on a short buffer\<close>

text \<open>
  C4, as the code has it. \<open>BinaryReader\<close> inherits \<open>read\<close> from \<open>BytesIO\<close>, which has no
  truncated-read error: asked for five bytes with three left it returns the three, and
  \<open>ReadUint\<close> on a two-byte buffer decodes those two bytes.
\<close>

theorem C4_counterexample:
  "fst (read (BinaryReader [1, 2, 3]) 5) = [1, 2, 3]
   \<and> fst (ReadUint (BinaryReader [1, 2])) = 513"
  by (simp add: read_def BinaryReader_def ReadUint_def Let_def)

text \<open>
  C4, amended: with fewer than \<open>N\<close> bytes remaining, a read of \<open>N\<close> bytes returns exactly
  the bytes that remain, fewer than \<open>N\<close>, and moves the cursor to the end of the buffer;
  no error is raised. Each fixed-width integer reader decodes whatever bytes its read
  returned.
\<close>

theorem C4_short_read:
  "length (buf r) - pos r < N \<Longrightarrow>
     fst (read r N) = drop (pos r) (buf r) \<and> length (fst (read r N)) < N
     \<and> pos (snd (read r N)) = pos r + (length (buf r) - pos r)
     \<and> ReadUint r = (from_bytes_unsigned (fst (read r 4)), snd (read r 4))
     \<and> ReadUshort r = (from_bytes_unsigned (fst (read r 2)), snd (read r 2))
     \<and> ReadUchar r = (from_bytes_unsigned (fst (read r 1)), snd (read r 1))
     \<and> ReadInt r = (from_bytes_signed (fst (read r 4)), snd (read r 4))
     \<and> ReadShort r = (from_bytes_signed (fst (read r 2)), snd (read r 2))
     \<and> ReadChar r = (from_bytes_signed (fst (read r 1)), snd (read r 1))"
  by (simp add: read_def ReadUint_def ReadUshort_def ReadUchar_def ReadInt_def ReadShort_def
      ReadChar_def Let_def)

theorem C4_short_read_witness:
  "fst (read \<lparr>buf = [7, 8, 9], pos = 1\<rparr> 4) = [8, 9]
   \<and> fst (ReadUint \<lparr>buf = [7, 8, 9], pos = 1\<rparr>) = 2312"
  using C4_short_read [of "\<lparr>buf = [7, 8, 9], pos = 1\<rparr>" 4] by simp

section \<open>Expected sizes\<close>

lemma size_four_channel:
  "Width t \<noteq> 0 \<Longrightarrow> Height t \<noteq> 0 \<Longrightarrow>
   \<forall>p \<in> set four_channel. PixelType t = Member p \<longrightarrow>
     IsUncompressed t \<and> CalculateExpectedSize t = Width t * Height t * 4"
  by (simp add: four_channel_def ScPixel_defs CalculateExpectedSize_def family_defs name_tests)

lemma size_three_channel:
  "Width t \<noteq> 0 \<Longrightarrow> Height t \<noteq> 0 \<Longrightarrow>
   \<forall>p \<in> set three_channel. PixelType t = Member p \<longrightarrow>
     IsUncompressed t \<and> CalculateExpectedSize t = Width t * Height t * 3"
  by (simp add: three_channel_def ScPixel_defs CalculateExpectedSize_def family_defs name_tests)

lemma size_two_channel:
  "Width t \<noteq> 0 \<Longrightarrow> Height t \<noteq> 0 \<Longrightarrow>
   \<forall>p \<in> set two_channel. PixelType t = Member p \<longrightarrow>
     IsUncompressed t \<and> CalculateExpectedSize t = Width t * Height t * 2"
  by (simp add: two_channel_def ScPixel_defs CalculateExpectedSize_def family_defs name_tests)

lemma size_one_channel:
  "Width t \<noteq> 0 \<Longrightarrow> Height t \<noteq> 0 \<Longrightarrow>
   \<forall>p \<in> set one_channel. PixelType t = Member p \<longrightarrow>
     IsUncompressed t \<and> CalculateExpectedSize t = Width t * Height t"
  by (simp add: one_channel_def ScPixel_defs CalculateExpectedSize_def family_defs name_tests)

lemma uncompressed_members:
  "\<forall>p \<in> set ScPixel_members. PixelType t = Member p \<and> IsUncompressed t \<longrightarrow>
     ScPixel_value p
       \<in> set (map ScPixel_value (four_channel @ three_channel @ two_channel @ one_channel))"
  by (simp add: ScPixel_members_def four_channel_def three_channel_def two_channel_def
      one_channel_def ScPixel_defs family_defs name_tests)

text \<open>
  C9, as the code has it: the calculator has no bytes-per-channel factor. A 2 x 2
  \<open>RGBA16F\<close> texture is not sized 2 * 2 * (4 * 2) = 32 but 16, and a 2 x 2 \<open>R32F\<close> texture
  not 2 * 2 * (1 * 4) = 16 but 4.
\<close>

theorem C9_counterexample:
  "CalculateExpectedSize (Texture_init (Member RGBA16F) 2 2) \<noteq> 2 * 2 * (4 * 2)
   \<and> CalculateExpectedSize (Texture_init (Member RGBA16F) 2 2) = 16
   \<and> CalculateExpectedSize (Texture_init (Member R32F) 2 2) \<noteq> 2 * 2 * (1 * 4)
   \<and> CalculateExpectedSize (Texture_init (Member R32F) 2 2) = 4"
  by (simp add: Texture_init_def ScPixel_defs CalculateExpectedSize_def family_defs name_tests)

text \<open>
  C9, amended: for every uncompressed member and nonzero width and height the expected
  size is width * height * channels, with 4 channels for the RGBA and BGRA members, 3 for
  RGB and BGR, 2 for RG and 1 for R, whatever the storage width of a channel; and every
  member the code classifies as uncompressed is one of these.
\<close>

theorem C9_uncompressed_size:
  assumes "Width t \<noteq> 0" and "Height t \<noteq> 0"
  shows "(\<forall>p \<in> set four_channel. PixelType t = Member p \<longrightarrow>
            IsUncompressed t \<and> CalculateExpectedSize t = Width t * Height t * 4)
       \<and> (\<forall>p \<in> set three_channel. PixelType t = Member p \<longrightarrow>
            IsUncompressed t \<and> CalculateExpectedSize t = Width t * Height t * 3)
       \<and> (\<forall>p \<in> set two_channel. PixelType t = Member p \<longrightarrow>
            IsUncompressed t \<and> CalculateExpectedSize t = Width t * Height t * 2)
       \<and> (\<forall>p \<in> set one_channel. PixelType t = Member p \<longrightarrow>
            IsUncompressed t \<and> CalculateExpectedSize t = Width t * Height t)
       \<and> (\<forall>p \<in> set ScPixel_members. PixelType t = Member p \<and> IsUncompressed t \<longrightarrow>
            ScPixel_value p \<in> set (map ScPixel_value
              (four_channel @ three_channel @ two_channel @ one_channel)))"
  using size_four_channel [OF assms] size_three_channel [OF assms]
    size_two_channel [OF assms] size_one_channel [OF assms] uncompressed_members [of t]
  by blast

theorem C9_uncompressed_size_witness:
  "RGBA16F \<in> set four_channel
   \<and> IsUncompressed (Texture_init (Member RGBA16F) 3 5)
   \<and> CalculateExpectedSize (Texture_init (Member RGBA16F) 3 5) = 3 * 5 * 4"
proof -
  have dims: "Width (Texture_init (Member RGBA16F) 3 5) \<noteq> 0"
    "Height (Texture_init (Member RGBA16F) 3 5) \<noteq> 0"
    by (simp_all add: Texture_init_def)
  have mem: "RGBA16F \<in> set four_channel"
    by (simp add: four_channel_def)
  have px: "PixelType (Texture_init (Member RGBA16F) 3 5) = Member RGBA16F"
    by (simp add: Texture_init_def)
  from C9_uncompressed_size [OF dims] mem px
  have "IsUncompressed (Texture_init (Member RGBA16F) 3 5)
      \<and> CalculateExpectedSize (Texture_init (Member RGBA16F) 3 5)
          = Width (Texture_init (Member RGBA16F) 3 5)
            * Height (Texture_init (Member RGBA16F) 3 5) * 4"
    by blast
  with mem show ?thesis
    by (simp add: Texture_init_def)
qed

lemma astc_sizes:
  "Width t \<noteq> 0 \<Longrightarrow> Height t \<noteq> 0 \<Longrightarrow>
   \<forall>(q, bw, bh) \<in> set astc_footprints. PixelType t = Member q \<longrightarrow>
     IsAstc t
     \<and> CalculateExpectedSize t = ceil_div (Width t) bw * ceil_div (Height t) bh * 16"
  by (simp add: astc_footprints_def ScPixel_defs CalculateExpectedSize_def family_defs
      name_tests AstcBlockSizes_def ceil_div_code add.commute)

lemma etc_rgba_sizes:
  "Width t \<noteq> 0 \<Longrightarrow> Height t \<noteq> 0 \<Longrightarrow>
   \<forall>p \<in> set etc_rgba. PixelType t = Member p \<longrightarrow>
     IsEtc t \<and> CalculateExpectedSize t = ceil_div (Width t) 4 * ceil_div (Height t) 4 * 16"
  by (simp add: etc_rgba_def ScPixel_defs CalculateExpectedSize_def family_defs name_tests
      ceil_div_code add.commute)

lemma etc_other_sizes:
  "Width t \<noteq> 0 \<Longrightarrow> Height t \<noteq> 0 \<Longrightarrow>
   \<forall>p \<in> set etc_other. PixelType t = Member p \<longrightarrow>
     IsEtc t \<and> CalculateExpectedSize t = ceil_div (Width t) 4 * ceil_div (Height t) 4 * 8"
  by (simp add: etc_other_def ScPixel_defs CalculateExpectedSize_def family_defs name_tests
      ceil_div_code add.commute)

lemma pvrtc_sizes:
  "\<forall>p \<in> set (pvrtc_2bpp @ pvrtc_4bpp). PixelType t = Member p \<longrightarrow>
     IsPvrtc t \<and> CalculateExpectedSize t = 0"
  by (simp add: pvrtc_2bpp_def pvrtc_4bpp_def ScPixel_defs CalculateExpectedSize_def
      family_defs name_tests)

lemma raw_sizes:
  "\<forall>n. PixelType t = RawInt n \<and> ScPixel_call n = None \<longrightarrow>
     (IsAstc t \<longleftrightarrow> n = 191 \<or> n = 209) \<and> \<not> IsEtc t \<and> \<not> IsPvrtc t
     \<and> CalculateExpectedSize t = 0"
proof (intro allI impI, elim conjE)
  fix n
  assume px: "PixelType t = RawInt n" and call: "ScPixel_call n = None"
  show "(IsAstc t \<longleftrightarrow> n = 191 \<or> n = 209) \<and> \<not> IsEtc t \<and> \<not> IsPvrtc t
      \<and> CalculateExpectedSize t = 0"
  proof (cases "n \<in> set AstcFormatIds")
    case True
    with call astc_ids_known have n: "n = 191 \<or> n = 209"
      by blast
    then have name: "GetFormatName t = ''ASTC_UNKNOWN_191'' \<or> GetFormatName t = ''ASTC_UNKNOWN_209''"
      using unknown_astc_name [OF n px] str_191_209 by fastforce
    have pat: "find (\<lambda>(BlockPattern, Bw, Bh). sublist BlockPattern (GetFormatName t)) AstcBlockSizes
        = None"
      using name by (elim disjE) (simp_all add: AstcBlockSizes_def name_tests)
    from unknown_astc [OF n px] pat n show ?thesis
      by (simp add: CalculateExpectedSize_def)
  next
    case False
    then have "\<not> (n = 191 \<or> n = 209)"
      by (auto simp: AstcFormatIds_def)
    with unknown_plain [OF call False px] show ?thesis
      by (simp add: CalculateExpectedSize_def)
  qed
qed

lemma block_members:
  "\<forall>p \<in> set ScPixel_members. PixelType t = Member p \<and> (IsAstc t \<or> IsEtc t \<or> IsPvrtc t) \<longrightarrow>
     ScPixel_value p \<in> set (map ScPixel_value
       (map fst astc_footprints @ etc_rgba @ etc_other @ pvrtc_2bpp @ pvrtc_4bpp))"
  by (simp add: ScPixel_members_def astc_footprints_def etc_rgba_def etc_other_def
      pvrtc_2bpp_def pvrtc_4bpp_def ScPixel_defs family_defs name_tests)

text \<open>
  C10, as the code has it: an ETC or EAC block counts 16 bytes only when the name contains
  \<open>RGBA\<close>. An 8 x 8 \<open>EAC_RG11\<close> texture, 2 x 2 blocks, is sized 2 * 2 * 8 = 32, not
  2 * 2 * 16 = 64.
\<close>

theorem C10_counterexample:
  "CalculateExpectedSize (Texture_init (Member EAC_RG11) 8 8) \<noteq> ceil_div 8 4 * ceil_div 8 4 * 16
   \<and> CalculateExpectedSize (Texture_init (Member EAC_RG11) 8 8) = 32"
  by (simp add: Texture_init_def ScPixel_defs CalculateExpectedSize_def family_defs name_tests
      ceil_div_code)

text \<open>
  C10, amended: for nonzero width and height the expected size is
  ceil(width / blockWidth) * ceil(height / blockHeight) * bytes-per-block, with the named
  footprint and 16 bytes for every ASTC member, a 4 x 4 footprint and 16 bytes for the ETC2
  members that carry RGBA (\<open>ETC2_EAC_RGBA8\<close>, \<open>ETC2_EAC_SRGBA8\<close>), and a 4 x 4 footprint and
  8 bytes for every other ETC or EAC member, \<open>EAC_RG11\<close> and \<open>EAC_SIGNED_RG11\<close> among
  them. For the PVRTC members the calculator has no formula and returns 0. Every member
  the code classifies as ASTC, ETC or PVRTC is one of these. A texture that holds a raw
  code the enumeration does not have, as the parser builds it, is classified as ASTC
  exactly for the codes 191 and 209, is never ETC or PVRTC, and its expected size is 0:
  the name \<open>ASTC_UNKNOWN_<code>\<close> carries no footprint.
\<close>

theorem C10_block_sizes:
  assumes "Width t \<noteq> 0" and "Height t \<noteq> 0"
  shows "(\<forall>(q, bw, bh) \<in> set astc_footprints. PixelType t = Member q \<longrightarrow>
            IsAstc t
            \<and> CalculateExpectedSize t = ceil_div (Width t) bw * ceil_div (Height t) bh * 16)
       \<and> (\<forall>p \<in> set etc_rgba. PixelType t = Member p \<longrightarrow>
            IsEtc t
            \<and> CalculateExpectedSize t = ceil_div (Width t) 4 * ceil_div (Height t) 4 * 16)
       \<and> (\<forall>p \<in> set etc_other. PixelType t = Member p \<longrightarrow>
            IsEtc t
            \<and> CalculateExpectedSize t = ceil_div (Width t) 4 * ceil_div (Height t) 4 * 8)
       \<and> (\<forall>p \<in> set (pvrtc_2bpp @ pvrtc_4bpp). PixelType t = Member p \<longrightarrow>
            IsPvrtc t \<and> CalculateExpectedSize t = 0)
       \<and> (\<forall>p \<in> set ScPixel_members.
            PixelType t = Member p \<and> (IsAstc t \<or> IsEtc t \<or> IsPvrtc t) \<longrightarrow>
            ScPixel_value p \<in> set (map ScPixel_value
              (map fst astc_footprints @ etc_rgba @ etc_other @ pvrtc_2bpp @ pvrtc_4bpp)))
       \<and> (\<forall>n. PixelType t = RawInt n \<and> ScPixel_call n = None \<longrightarrow>
            (IsAstc t \<longleftrightarrow> n = 191 \<or> n = 209) \<and> \<not> IsEtc t \<and> \<not> IsPvrtc t
            \<and> CalculateExpectedSize t = 0)"
  using astc_sizes [OF assms] etc_rgba_sizes [OF assms] etc_other_sizes [OF assms]
    pvrtc_sizes [of t] block_members [of t] raw_sizes [of t]
  by blast

theorem C10_block_sizes_witness:
  "EAC_RG11 \<in> set etc_other
   \<and> IsEtc (Texture_init (Member EAC_RG11) 7 9)
   \<and> CalculateExpectedSize (Texture_init (Member EAC_RG11) 7 9) = 2 * 3 * 8"
proof -
  have dims: "Width (Texture_init (Member EAC_RG11) 7 9) \<noteq> 0"
    "Height (Texture_init (Member EAC_RG11) 7 9) \<noteq> 0"
    by (simp_all add: Texture_init_def)
  have mem: "EAC_RG11 \<in> set etc_other"
    by (simp add: etc_other_def)
  have px: "PixelType (Texture_init (Member EAC_RG11) 7 9) = Member EAC_RG11"
    by (simp add: Texture_init_def)
  from C10_block_sizes [OF dims] mem px
  have "IsEtc (Texture_init (Member EAC_RG11) 7 9)
      \<and> CalculateExpectedSize (Texture_init (Member EAC_RG11) 7 9)
          = ceil_div (Width (Texture_init (Member EAC_RG11) 7 9)) 4
            * ceil_div (Height (Texture_init (Member EAC_RG11) 7 9)) 4 * 8"
    by blast
  then show ?thesis
    using mem by (simp add: Texture_init_def ceil_div_code)
qed

section \<open>The PVRTC mode flag\<close>

lemma pvrtc_2bpp_flag:
  "\<forall>p \<in> set pvrtc_2bpp. PixelType t = Member p \<longrightarrow>
     dispatch ext t d = returning ''RGBA''
       (Option.bind (decode_pvrtc ext d (Width t) (Height t) True) reorder_bgra)"
  by (simp add: pvrtc_2bpp_def ScPixel_defs dispatch_def family_defs name_tests Let_def)

lemma pvrtc_4bpp_flag:
  "\<forall>p \<in> set pvrtc_4bpp. PixelType t = Member p \<longrightarrow>
     dispatch ext t d = returning ''RGBA''
       (Option.bind
          (decode_pvrtc ext d (Width t) (Height t) (p \<in> {PVRTC2_RGBA4, PVRTC2_SRGBA4}))
          reorder_bgra)"
  by (simp add: pvrtc_4bpp_def ScPixel_defs dispatch_def family_defs name_tests Let_def)

lemma select_sixteen:
  "IsCompressedDataFlag t = None \<Longrightarrow> Data t = Some sixteen \<Longrightarrow>
   zstd_decompress ext (take 16 sixteen) 1000 = None \<Longrightarrow>
   select_data ext self t False = (Inr sixteen, t\<lparr>IsCompressedDataFlag := Some False\<rparr>)"
  by (simp add: select_data_def truthy_def IsCompressedData_def sixteen_def ZstdMagic_def)

text \<open>
  C6, on the code: the flag is \<open>"2" in FormatName\<close>. It is true for the six 2-bpp members
  and false for the four PVRTC1 4-bpp members, but the 4-bpp members \<open>PVRTC2_RGBA4\<close> and
  \<open>PVRTC2_SRGBA4\<close> carry a 2 in \<open>PVRTC2\<close>, so the decoder is called in 2-bpp mode for them.
\<close>

theorem C6_pvrtc_flag:
  assumes "select_data ext self t u = (Inr d, t')"
  shows "(\<forall>p \<in> set pvrtc_2bpp. PixelType t = Member p \<longrightarrow>
            fst (DecodeTexture ext self t u) = returning ''RGBA''
              (Option.bind (decode_pvrtc ext d (Width t) (Height t) True) reorder_bgra))
       \<and> (\<forall>p \<in> set pvrtc_4bpp. PixelType t = Member p \<longrightarrow>
            fst (DecodeTexture ext self t u) = returning ''RGBA''
              (Option.bind
                 (decode_pvrtc ext d (Width t) (Height t) (p \<in> {PVRTC2_RGBA4, PVRTC2_SRGBA4}))
                 reorder_bgra))"
  using pvrtc_2bpp_flag [of t ext d] pvrtc_4bpp_flag [of t ext d]
    DecodeTexture_selected [OF assms]
  by simp

theorem C6_pvrtc_flag_witness:
  "PVRTC2_RGBA4 \<in> set pvrtc_4bpp
   \<and> fst (DecodeTexture flag_probe (fresh [])
            ((Texture_init (Member PVRTC2_RGBA4) 8 8)\<lparr>Data := Some sixteen\<rparr>) False)
       = Inr ([2, 2, 2, 2], ''RGBA'')"
proof -
  let ?t = "(Texture_init (Member PVRTC2_RGBA4) 8 8)\<lparr>Data := Some sixteen\<rparr>"
  have sel: "select_data flag_probe (fresh []) ?t False
      = (Inr sixteen, ?t\<lparr>IsCompressedDataFlag := Some False\<rparr>)"
    by (rule select_sixteen) (simp_all add: Texture_init_def flag_probe_def no_library_def)
  have mem: "PVRTC2_RGBA4 \<in> set pvrtc_4bpp"
    by (simp add: pvrtc_4bpp_def)
  have px: "PixelType ?t = Member PVRTC2_RGBA4"
    by (simp add: Texture_init_def)
  from C6_pvrtc_flag [OF sel] mem px
  have "fst (DecodeTexture flag_probe (fresh []) ?t False) = returning ''RGBA''
      (Option.bind
         (decode_pvrtc flag_probe sixteen (Width ?t) (Height ?t)
            (PVRTC2_RGBA4 \<in> {PVRTC2_RGBA4, PVRTC2_SRGBA4}))
         reorder_bgra)"
    by blast
  moreover have "reorder_bgra [2, 2, 2, 2] = Some [2, 2, 2, 2]"
    by (simp add: reorder_bgra_def range_step_def bytes_slice_def upt_conv_Cons)
  ultimately show ?thesis
    using mem by (simp add: flag_probe_def returning_def)
qed

section \<open>Eight-bit RGBA and BGRA sources\<close>

lemma rgba8_plain_dispatch:
  "\<forall>p \<in> set rgba8_plain. PixelType t = Member p \<longrightarrow>
     dispatch ext t d = returning ''RGBA'' (reorder_bgra d)"
  by (simp add: rgba8_plain_def ScPixel_defs dispatch_def decode_uncompressed_def family_defs
      name_tests Let_def)

lemma rgba8_untouched_dispatch:
  "\<forall>p \<in> set rgba8_untouched. PixelType t = Member p \<longrightarrow>
     dispatch ext t d = Inr (d, ''RGBA'')"
  by (simp add: rgba8_untouched_def ScPixel_defs dispatch_def decode_uncompressed_def
      family_defs name_tests Let_def)

text \<open>
  C5, as the code has it: a name that contains \<open>RGBA8Unorm\<close> is returned without
  conversion (the code logs "treating as BGRA"). Sixteen bytes of \<open>RGBA8Unorm\<close> come back
  as they are, not with red and blue exchanged.
\<close>

theorem C5_counterexample:
  "fst (DecodeTexture no_library (fresh [])
          ((Texture_init (Member RGBA8Unorm) 2 2)\<lparr>Data := Some sixteen\<rparr>) False)
     = Inr (sixteen, ''RGBA'')
   \<and> swap_red_blue sixteen \<noteq> sixteen"
proof -
  let ?t = "(Texture_init (Member RGBA8Unorm) 2 2)\<lparr>Data := Some sixteen\<rparr>"
  have sel: "select_data no_library (fresh []) ?t False
      = (Inr sixteen, ?t\<lparr>IsCompressedDataFlag := Some False\<rparr>)"
    by (rule select_sixteen) (simp_all add: Texture_init_def no_library_def)
  have "RGBA8Unorm \<in> set rgba8_untouched" and "PixelType ?t = Member RGBA8Unorm"
    by (simp_all add: rgba8_untouched_def Texture_init_def)
  with rgba8_untouched_dispatch [of ?t no_library sixteen]
  have "dispatch no_library ?t sixteen = Inr (sixteen, ''RGBA'')"
    by blast
  with DecodeTexture_selected [OF sel] show ?thesis
    by (simp add: sixteen_def)
qed

text \<open>
  C5, amended: for selected data whose length is a multiple of 4 (it is at least 16 bytes
  whenever source selection succeeds), the dispatcher returns the per-pixel (B, G, R, A)
  permutation tagged RGBA for the members \<open>RGBA8\<close> and \<open>RGBA8_SIGNED\<close>, and returns the
  data unchanged, tagged RGBA, for \<open>RGBA8Unorm\<close>, \<open>RGBA8Unorm_sRGB\<close>, the legacy code 70 and
  the BGRA members.
\<close>

theorem C5_rgba8_decode:
  assumes "select_data ext self t u = (Inr d, t')" and "4 dvd length d"
  shows "16 \<le> length d
       \<and> (\<forall>p \<in> set rgba8_plain. PixelType t = Member p \<longrightarrow>
            fst (DecodeTexture ext self t u) = Inr (swap_red_blue d, ''RGBA''))
       \<and> (\<forall>p \<in> set rgba8_untouched. PixelType t = Member p \<longrightarrow>
            fst (DecodeTexture ext self t u) = Inr (d, ''RGBA''))"
  using rgba8_plain_dispatch [of t ext d] rgba8_untouched_dispatch [of t ext d]
    DecodeTexture_selected [OF assms(1)] select_data_size [OF assms(1)]
    reorder_bgra_swap [OF assms(2)]
  by (simp add: returning_def)

theorem C5_rgba8_decode_witness:
  "RGBA8 \<in> set rgba8_plain
   \<and> fst (DecodeTexture no_library (fresh [])
            ((Texture_init (Member RGBA8) 2 2)\<lparr>Data := Some sixteen\<rparr>) False)
       = Inr ([2, 1, 0, 3, 6, 5, 4, 7, 10, 9, 8, 11, 14, 13, 12, 15], ''RGBA'')"
proof -
  let ?t = "(Texture_init (Member RGBA8) 2 2)\<lparr>Data := Some sixteen\<rparr>"
  have sel: "select_data no_library (fresh []) ?t False
      = (Inr sixteen, ?t\<lparr>IsCompressedDataFlag := Some False\<rparr>)"
    by (rule select_sixteen) (simp_all add: Texture_init_def no_library_def)
  have "length sixteen = 16"
    by (simp add: sixteen_def)
  then have len: "4 dvd length sixteen"
    by simp
  have mem: "RGBA8 \<in> set rgba8_plain"
    by (simp add: rgba8_plain_def)
  have px: "PixelType ?t = Member RGBA8"
    by (simp add: Texture_init_def)
  from C5_rgba8_decode [OF sel len] mem px
  have "fst (DecodeTexture no_library (fresh []) ?t False) = Inr (swap_red_blue sixteen, ''RGBA'')"
    by blast
  then show ?thesis
    using mem by (simp add: sixteen_def)
qed

section \<open>Unrecognized format codes\<close>

text \<open>
  C8, as the code has it: the codes 191 and 209 lie in the ASTC ranges but the
  enumeration has no member for them. \<open>GetFormatName\<close> names them \<open>ASTC_UNKNOWN_191\<close> and
  \<open>ASTC_UNKNOWN_209\<close>, and \<open>IsAstc\<close> is true of them.
\<close>

theorem C8_counterexample:
  "ScPixel_call 191 = None \<and> IsAstc (Texture_init (RawInt 191) 4 4)"
  using unknown_astc [of 191 "Texture_init (RawInt 191) 4 4"] call_191_209
  by (simp add: Texture_init_def)

text \<open>
  C8, amended: for every code the enumeration does not have, the texture is built with the
  raw code (\<^const>\<open>Texture_init\<close> is total, and the parser takes the \<open>ValueError\<close> branch);
  the display name contains the decimal digits of the code; \<open>IsEtc\<close>, \<open>IsPvrtc\<close>,
  \<open>IsUncompressed\<close> and \<open>IsSrgb\<close> are false; \<open>IsAstc\<close> is false except for the codes 191
  and 209; the dispatch ends in the unsupported-format failure that carries the display
  name, and \<open>DecodeTexture\<close> returns a failure, never an exception.
\<close>

theorem C8_unknown_format:
  assumes "ScPixel_call n = None" and "PixelType t = RawInt n"
  shows "sublist (str_of_nat n) (GetFormatName t)
       \<and> \<not> IsEtc t \<and> \<not> IsPvrtc t \<and> \<not> IsUncompressed t \<and> \<not> IsSrgb t
       \<and> (IsAstc t \<longleftrightarrow> n = 191 \<or> n = 209)
       \<and> dispatch ext t d = Inl (UnsupportedFormat (GetFormatName t))
       \<and> (\<forall>d' t'. select_data ext self t u = (Inr d', t') \<longrightarrow>
            fst (DecodeTexture ext self t u) = Inl (UnsupportedFormat (GetFormatName t)))
       \<and> (\<exists>failure. fst (DecodeTexture ext self t u) = Inl failure)"
proof (cases "n \<in> set AstcFormatIds")
  case True
  with assms(1) astc_ids_known have n: "n = 191 \<or> n = 209"
    by blast
  have "sublist (str_of_nat n) (''ASTC_UNKNOWN_'' @ str_of_nat n @ [])"
    by (rule sublist_appendI)
  then have name: "sublist (str_of_nat n) (GetFormatName t)"
    using unknown_astc_name [OF n assms(2)] by simp
  have sel: "\<forall>d' t'. select_data ext self t u = (Inr d', t') \<longrightarrow>
      fst (DecodeTexture ext self t u) = Inl (UnsupportedFormat (GetFormatName t))"
    using DecodeTexture_selected [of ext self t u] unknown_dispatch [OF assms, of ext]
    by simp
  have dec: "\<exists>failure. fst (DecodeTexture ext self t u) = Inl failure"
  proof (cases "select_data ext self t u")
    case (Pair r t')
    show ?thesis
    proof (cases r)
      case (Inl f)
      with Pair show ?thesis by (simp add: DecodeTexture_def)
    next
      case (Inr d')
      with Pair DecodeTexture_selected [of ext self t u d' t']
        unknown_dispatch [OF assms, of ext d']
      show ?thesis by simp
    qed
  qed
  from unknown_astc [OF n assms(2)] unknown_dispatch [OF assms, of ext d] name n sel dec
  show ?thesis by simp
next
  case False
  then have n: "\<not> (n = 191 \<or> n = 209)"
    by (auto simp: AstcFormatIds_def)
  have "sublist (str_of_nat n) (''UNKNOWN ('' @ str_of_nat n @ '')'')"
    by (rule sublist_appendI)
  then have name: "sublist (str_of_nat n) (GetFormatName t)"
    using unknown_name [OF assms(1) False assms(2)] by simp
  have sel: "\<forall>d' t'. select_data ext self t u = (Inr d', t') \<longrightarrow>
      fst (DecodeTexture ext self t u) = Inl (UnsupportedFormat (GetFormatName t))"
    using DecodeTexture_selected [of ext self t u] unknown_dispatch [OF assms, of ext]
    by simp
  have dec: "\<exists>failure. fst (DecodeTexture ext self t u) = Inl failure"
  proof (cases "select_data ext self t u")
    case (Pair r t')
    show ?thesis
    proof (cases r)
      case (Inl f)
      with Pair show ?thesis by (simp add: DecodeTexture_def)
    next
      case (Inr d')
      with Pair DecodeTexture_selected [of ext self t u d' t']
        unknown_dispatch [OF assms, of ext d']
      show ?thesis by simp
    qed
  qed
  from unknown_plain [OF assms(1) False assms(2)] unknown_dispatch [OF assms, of ext d] name n sel dec
  show ?thesis by simp
qed

theorem C8_unknown_format_witness:
  "ScPixel_call 9999 = None
   \<and> GetFormatName (Texture_init (RawInt 9999) 4 4) = ''UNKNOWN (9999)''
   \<and> \<not> IsAstc (Texture_init (RawInt 9999) 4 4)
   \<and> \<not> IsUncompressed (Texture_init (RawInt 9999) 4 4)
   \<and> dispatch no_library (Texture_init (RawInt 9999) 4 4) sixteen
       = Inl (UnsupportedFormat ''UNKNOWN (9999)'')"
proof -
  have call: "ScPixel_call 9999 = None"
    by (simp add: ScPixel_call_def ScPixel_members_def ScPixel_defs)
  have px: "PixelType (Texture_init (RawInt 9999) 4 4) = RawInt 9999"
    by (simp add: Texture_init_def)
  have name: "GetFormatName (Texture_init (RawInt 9999) 4 4) = ''UNKNOWN (9999)''"
    by (simp add: GetFormatName_def Texture_init_def AstcFormatIds_def str_of_nat.simps
        digit_char_def)
  from C8_unknown_format [OF call px, of no_library sixteen "fresh []" False] call name
  show ?thesis
    by simp
qed

section \<open>The post-parse repair\<close>

text \<open>
  C7, as the code has it: the repair copies \<open>Data\<close> and \<open>DataLength\<close> and nothing else, so
  the decode of the main texture runs on the streaming data with the main texture's own
  width and height: the probe decoder is called with 8 x 6, not with the streaming
  texture's 4 x 2. And streaming data of five bytes is substituted all the same, after
  which the decode fails on insufficient data.
\<close>

theorem C7_counterexample:
  "Texture (repair small_main)
     = Some ((Texture_init (Member ETC2_RGB8) 8 6)\<lparr>DataLength := 16, Data := Some sixteen\<rparr>)
   \<and> StreamingTexture (repair small_main)
     = Some ((Texture_init (Member ETC2_RGB8) 4 2)\<lparr>DataLength := 16, Data := Some sixteen\<rparr>)
   \<and> fst (DecodeTexture dims_probe (repair small_main)
            ((Texture_init (Member ETC2_RGB8) 8 6)\<lparr>DataLength := 16, Data := Some sixteen\<rparr>) False)
       = Inr ([0, 6, 8, 0], ''RGBA'')
   \<and> Texture (repair small_both)
     = Some ((Texture_init (Member ETC2_RGB8) 8 6)\<lparr>DataLength := 5, Data := Some [1, 2, 3, 4, 5]\<rparr>)
   \<and> fst (DecodeTexture dims_probe (repair small_both)
            ((Texture_init (Member ETC2_RGB8) 8 6)\<lparr>DataLength := 5, Data := Some [1, 2, 3, 4, 5]\<rparr>) False)
       = Inl (TextureDataTooSmall 5)"
proof -
  let ?T = "(Texture_init (Member ETC2_RGB8) 8 6)\<lparr>DataLength := 16, Data := Some sixteen\<rparr>"
  let ?U = "(Texture_init (Member ETC2_RGB8) 8 6)\<lparr>DataLength := 5, Data := Some [1, 2, 3, 4, 5]\<rparr>"
  have r1: "Texture (repair small_main) = Some ?T"
    "StreamingTexture (repair small_main)
       = Some ((Texture_init (Member ETC2_RGB8) 4 2)\<lparr>DataLength := 16, Data := Some sixteen\<rparr>)"
    by (simp_all add: small_main_def repair_def fresh_def truthy_def Texture_init_def logging_def
        sixteen_def)
  have r2: "Texture (repair small_both) = Some ?U"
    by (simp add: small_both_def repair_def fresh_def truthy_def Texture_init_def logging_def)
  have "fst (IsCompressedData dims_probe ?T) = False"
    by (rule probe_says_uncompressed [of _ sixteen])
      (simp_all add: Texture_init_def dims_probe_def no_library_def sixteen_def ZstdMagic_def)
  then have "fst (select_data dims_probe (repair small_main) ?T False) = Inr sixteen"
    using select_uncompressed [of ?T sixteen dims_probe "repair small_main"]
    by (simp add: sixteen_def)
  then have "fst (DecodeTexture dims_probe (repair small_main) ?T False)
      = dispatch dims_probe ?T sixteen"
    by (simp add: DecodeTexture_fst)
  also have "\<dots> = returning ''RGBA''
      (Option.bind (decode_etc1 dims_probe sixteen (Width ?T) (Height ?T)) reorder_bgra)"
    by (rule etc2_rgb8_dispatch) (simp add: Texture_init_def)
  also have "\<dots> = Inr ([0, 6, 8, 0], ''RGBA'')"
    by (simp add: dims_probe_def Texture_init_def returning_def reorder_bgra_def range_step_def
        bytes_slice_def upt_conv_Cons)
  finally have d1: "fst (DecodeTexture dims_probe (repair small_main) ?T False)
      = Inr ([0, 6, 8, 0], ''RGBA'')" .
  have "fst (IsCompressedData dims_probe ?U) = False"
    by (rule probe_says_uncompressed [of _ "[1, 2, 3, 4, 5]"])
      (simp_all add: Texture_init_def dims_probe_def no_library_def ZstdMagic_def)
  then have "fst (select_data dims_probe (repair small_both) ?U False)
      = Inl (TextureDataTooSmall 5)"
    using select_uncompressed [of ?U "[1, 2, 3, 4, 5]" dims_probe "repair small_both"]
    by simp
  then have d2: "fst (DecodeTexture dims_probe (repair small_both) ?U False)
      = Inl (TextureDataTooSmall 5)"
    by (simp add: DecodeTexture_fst)
  from r1 r2 d1 d2 show ?thesis
    by blast
qed

text \<open>
  C7, amended: when the main texture exists with data absent or shorter than 16 bytes and
  the streaming texture has data, the repair puts the streaming texture's data and
  declared length into the main texture and leaves its width, height and format as they
  were. A decode of the main texture then selects from the streaming data and dispatches
  with the main texture's format and dimensions; when the data is not compressed, it fails
  on insufficient data exactly if the streaming data is shorter than 16 bytes.
\<close>

theorem C7_repair:
  assumes "Texture self = Some Tex"
    and "\<not> truthy (Data Tex) \<or> length (the (Data Tex)) < 16"
    and "StreamingTexture self = Some STex" and "Data STex = Some sd" and "sd \<noteq> []"
  shows "Texture (repair self) = Some (Tex\<lparr>Data := Some sd, DataLength := DataLength STex\<rparr>)
       \<and> StreamingTexture (repair self) = Some STex
       \<and> fst (DecodeTexture ext (repair self) (Tex\<lparr>Data := Some sd, DataLength := DataLength STex\<rparr>) False)
           = (case fst (select_data ext (repair self) (Tex\<lparr>Data := Some sd, DataLength := DataLength STex\<rparr>) False) of
                Inl failure \<Rightarrow> Inl failure
              | Inr d \<Rightarrow> dispatch ext Tex d)
       \<and> (fst (IsCompressedData ext (Tex\<lparr>Data := Some sd, DataLength := DataLength STex\<rparr>)) = False \<longrightarrow>
            fst (DecodeTexture ext (repair self) (Tex\<lparr>Data := Some sd, DataLength := DataLength STex\<rparr>) False)
              = (if length sd < 16 then Inl (TextureDataTooSmall (length sd))
                 else dispatch ext Tex sd))"
proof -
  let ?T = "Tex\<lparr>Data := Some sd, DataLength := DataLength STex\<rparr>"
  have tr: "truthy (Data STex)"
    using assms(4,5) by (simp add: truthy_def)
  have rep: "Texture (repair self) = Some ?T" "StreamingTexture (repair self) = Some STex"
    using repair_substitutes [OF assms(1,2,3) tr] assms(3,4) by (simp_all add: logging_def)
  have disp: "dispatch ext ?T d = dispatch ext Tex d" for d
    by (rule dispatch_cong) simp_all
  have dec: "fst (DecodeTexture ext (repair self) ?T False)
      = (case fst (select_data ext (repair self) ?T False) of
           Inl failure \<Rightarrow> Inl failure | Inr d \<Rightarrow> dispatch ext Tex d)"
    unfolding DecodeTexture_fst disp ..
  have unc: "fst (DecodeTexture ext (repair self) ?T False)
      = (if length sd < 16 then Inl (TextureDataTooSmall (length sd)) else dispatch ext Tex sd)"
    if "fst (IsCompressedData ext ?T) = False"
    unfolding dec using select_uncompressed [of ?T sd ext "repair self"] that assms(5) by simp
  from rep dec unc show ?thesis
    by blast
qed

theorem C7_repair_witness:
  "Texture (repair small_main)
     = Some ((Texture_init (Member ETC2_RGB8) 8 6)\<lparr>Data := Some sixteen, DataLength := 16\<rparr>)
   \<and> fst (DecodeTexture dims_probe (repair small_main)
            ((Texture_init (Member ETC2_RGB8) 8 6)\<lparr>Data := Some sixteen, DataLength := 16\<rparr>) False)
       = dispatch dims_probe
           ((Texture_init (Member ETC2_RGB8) 8 6)\<lparr>DataLength := 3, Data := Some [1, 2, 3]\<rparr>)
           sixteen"
proof -
  let ?Tex = "(Texture_init (Member ETC2_RGB8) 8 6)\<lparr>DataLength := 3, Data := Some [1, 2, 3]\<rparr>"
  let ?STex = "(Texture_init (Member ETC2_RGB8) 4 2)\<lparr>DataLength := 16, Data := Some sixteen\<rparr>"
  have a: "Texture small_main = Some ?Tex" "StreamingTexture small_main = Some ?STex"
    by (simp_all add: small_main_def fresh_def)
  have b: "\<not> truthy (Data ?Tex) \<or> length (the (Data ?Tex)) < 16"
    by simp
  have c: "Data ?STex = Some sixteen" "sixteen \<noteq> []"
    by (simp_all add: sixteen_def)
  have len: "length sixteen = 16"
    by (simp add: sixteen_def)
  have unc: "fst (IsCompressedData dims_probe
      (?Tex\<lparr>Data := Some sixteen, DataLength := DataLength ?STex\<rparr>)) = False"
    by (rule probe_says_uncompressed [of _ sixteen])
      (simp_all add: Texture_init_def dims_probe_def no_library_def sixteen_def ZstdMagic_def)
  let ?T = "?Tex\<lparr>Data := Some sixteen, DataLength := DataLength ?STex\<rparr>"
  note inst = C7_repair [OF a(1) b a(2) c, of dims_probe]
  from inst have r: "Texture (repair small_main) = Some ?T"
    by blast
  from inst unc have d: "fst (DecodeTexture dims_probe (repair small_main) ?T False)
      = (if length sixteen < 16 then Inl (TextureDataTooSmall (length sixteen))
         else dispatch dims_probe ?Tex sixteen)"
    by blast
  from r d len show ?thesis
    by simp
qed

section \<open>Length fields\<close>




section \<open>The parse on a file without a streaming texture header\<close>

text \<open>
  C2, on the code: for the 42-byte file whose streaming block is empty and whose texture
  header block has 34 bytes, \<open>ReadStreamingData\<close> creates no texture, and \<open>ReadTexture\<close>
  then assigns to \<open>self.Texture.Width\<close>: the constructor ends in \<open>AttributeError\<close>,
  whatever the libraries do. \<open>ReadTexture\<close> raises exactly when its block has 34 bytes or
  more and no texture exists.
\<close>

theorem C2_parse_raises:
  "SCTX_init ext headless_file sid = Inl AttributeError
   \<and> (ReadTexture self data = Inl AttributeError \<longleftrightarrow> 34 \<le> length data \<and> Texture self = None)"
proof -
  let ?self = "\<lparr>CtxWidth = 0, CtxHeight = 0, StreamingTextureId = sid,
                  TextureId = 0xFF, StreamingTexture = None, Texture = None,
                  OriginalFileData = headless_file, CompressedPayload = None,
                  DecompressedPayload = None, StreamingId = None, Log = []\<rparr>"
  have find: "FindAndDecompressPayload ext ?self = ?self"
    by (rule no_magic_headless) simp
  have len: "length headless_file = 42"
    by (simp add: headless_file_def)
  have u1: "ReadUint (BinaryReader headless_file) = (0, \<lparr>buf = headless_file, pos = 4\<rparr>)"
    by (simp add: ReadUint_def BinaryReader_def read_def headless_file_def Let_def)
  have "38 = length (OriginalFileData ?self) - tell \<lparr>buf = headless_file, pos = 4\<rparr>"
    by (simp add: tell_def len)
  from streaming_block_eq [OF u1 this]
  have sb: "read_streaming_block ?self (BinaryReader headless_file)
      = ([], \<lparr>buf = headless_file, pos = 4\<rparr>, ?self)"
    by (simp add: read_def Let_def)
  have sd: "ReadStreamingData ?self [] = ?self"
    by (simp add: ReadStreamingData_def)
  have u2: "ReadUint \<lparr>buf = headless_file, pos = 4\<rparr> = (34, \<lparr>buf = headless_file, pos = 8\<rparr>)"
    by (simp add: ReadUint_def read_def headless_file_def Let_def)
  have "34 = length (OriginalFileData ?self) - tell \<lparr>buf = headless_file, pos = 8\<rparr>"
    by (simp add: tell_def len)
  from texture_block_eq [OF u2 this]
  have tb: "read_texture_block ?self \<lparr>buf = headless_file, pos = 4\<rparr>
      = (drop 8 headless_file, \<lparr>buf = headless_file, pos = 42\<rparr>, ?self)"
    by (simp add: read_def len Let_def)
  have rt: "ReadTexture ?self (drop 8 headless_file) = Inl AttributeError"
    unfolding ReadTexture_raises_iff by (simp add: len)
  have "SCTX_init ext headless_file sid = Inl AttributeError"
    unfolding SCTX_init_def Let_def find
    by (simp add: sb sd tb rt tell_def len)
  then show ?thesis
    using ReadTexture_raises_iff [of self data] by simp
qed

section \<open>The ceiling of the payload locator\<close>

text \<open>
  C1, on the code: \<open>FindAndDecompressPayload\<close> calls the decompressor with no ceiling
  (\<open>max_output_size\<close> at its default 0), so what it records is whatever the unbounded call
  returns: with the library above, a payload of 100 MiB + 1 bytes, where the same library
  under a ceiling of 100 MiB raises. The sibling \<open>Texture.DecompressData\<close> passes that
  ceiling, and keeps the compressed bytes on the same input.
\<close>

theorem C1_locator_unbounded:
  "DecompressedPayload (FindAndDecompressPayload ext (fresh bomb_file))
     = zstd_decompress ext bomb_file 0
   \<and> DecompressedPayload (FindAndDecompressPayload bomb_library (fresh bomb_file))
     = Some bomb_output
   \<and> length bomb_output = 100 * 1024 * 1024 + 1
   \<and> zstd_decompress bomb_library bomb_file (100 * 1024 * 1024) = None
   \<and> fst (DecompressData bomb_library
            ((Texture_init (Member RGBA8) 0 0)\<lparr>Data := Some bomb_file\<rparr>))
       = Some bomb_file"
  using locator_passes_no_ceiling [of ext] locator_passes_no_ceiling [of bomb_library]
    bomb_unbounded [of bomb_file] bomb_length bomb_bounded [of bomb_file] sibling_keeps_ceiling
  by simp

end
